theory Spec2Isabelle
  imports Complex_Main "HOL-Library.Product_Lexorder"
begin

section \<open>MeasureColocalization: numeric model\<close>

text \<open>
  The module \<^verbatim>\<open>cellprofiler/modules/measurecolocalization.py\<close> computes on numpy
  float arrays. A pixel value is modelled as an exact real number or one of the three
  special IEEE values. Arithmetic on finite values is exact (no rounding, no overflow)
  and zero is unsigned; the special values follow IEEE 754 as numpy implements it
  (a division by zero gives an infinity or NaN together with a warning, not an
  exception; every ordered comparison with NaN is false).
\<close>

datatype npfloat = Fin real | PInf | NInf | NaN

fun isnan :: "npfloat \<Rightarrow> bool" where
  "isnan NaN = True"
| "isnan _ = False"

fun isfinite :: "npfloat \<Rightarrow> bool" where
  "isfinite (Fin _) = True"
| "isfinite _ = False"

fun np_neg :: "npfloat \<Rightarrow> npfloat" where
  "np_neg (Fin a) = Fin (- a)"
| "np_neg PInf = NInf"
| "np_neg NInf = PInf"
| "np_neg NaN = NaN"

fun np_add :: "npfloat \<Rightarrow> npfloat \<Rightarrow> npfloat" where
  "np_add (Fin a) (Fin b) = Fin (a + b)"
| "np_add NaN _ = NaN"
| "np_add _ NaN = NaN"
| "np_add PInf NInf = NaN"
| "np_add NInf PInf = NaN"
| "np_add PInf _ = PInf"
| "np_add _ PInf = PInf"
| "np_add NInf _ = NInf"
| "np_add _ NInf = NInf"

definition np_sub :: "npfloat \<Rightarrow> npfloat \<Rightarrow> npfloat" where
  "np_sub x y = np_add x (np_neg y)"

text \<open>The infinity with the sign of a real number that is not zero.\<close>

definition inf_of_sign :: "real \<Rightarrow> npfloat" where
  "inf_of_sign a = (if 0 < a then PInf else NInf)"

fun np_mul :: "npfloat \<Rightarrow> npfloat \<Rightarrow> npfloat" where
  "np_mul (Fin a) (Fin b) = Fin (a * b)"
| "np_mul NaN _ = NaN"
| "np_mul _ NaN = NaN"
| "np_mul PInf (Fin b) = (if b = 0 then NaN else inf_of_sign b)"
| "np_mul NInf (Fin b) = (if b = 0 then NaN else inf_of_sign (- b))"
| "np_mul (Fin a) PInf = (if a = 0 then NaN else inf_of_sign a)"
| "np_mul (Fin a) NInf = (if a = 0 then NaN else inf_of_sign (- a))"
| "np_mul PInf PInf = PInf"
| "np_mul NInf NInf = PInf"
| "np_mul PInf NInf = NInf"
| "np_mul NInf PInf = NInf"

fun np_div :: "npfloat \<Rightarrow> npfloat \<Rightarrow> npfloat" where
  "np_div (Fin a) (Fin b) =
     (if b \<noteq> 0 then Fin (a / b) else if a = 0 then NaN else inf_of_sign a)"
| "np_div NaN _ = NaN"
| "np_div _ NaN = NaN"
| "np_div (Fin a) PInf = Fin 0"
| "np_div (Fin a) NInf = Fin 0"
| "np_div PInf (Fin b) = (if 0 \<le> b then PInf else NInf)"
| "np_div NInf (Fin b) = (if 0 \<le> b then NInf else PInf)"
| "np_div PInf PInf = NaN"
| "np_div PInf NInf = NaN"
| "np_div NInf PInf = NaN"
| "np_div NInf NInf = NaN"

fun np_sqrt :: "npfloat \<Rightarrow> npfloat" where
  "np_sqrt (Fin a) = (if 0 \<le> a then Fin (sqrt a) else NaN)"
| "np_sqrt PInf = PInf"
| "np_sqrt NInf = NaN"
| "np_sqrt NaN = NaN"

fun np_lt :: "npfloat \<Rightarrow> npfloat \<Rightarrow> bool" where
  "np_lt (Fin a) (Fin b) = (a < b)"
| "np_lt NaN _ = False"
| "np_lt _ NaN = False"
| "np_lt NInf NInf = False"
| "np_lt NInf _ = True"
| "np_lt PInf _ = False"
| "np_lt (Fin a) PInf = True"
| "np_lt (Fin a) NInf = False"

fun np_eq :: "npfloat \<Rightarrow> npfloat \<Rightarrow> bool" where
  "np_eq (Fin a) (Fin b) = (a = b)"
| "np_eq PInf PInf = True"
| "np_eq NInf NInf = True"
| "np_eq _ _ = False"

definition np_gt :: "npfloat \<Rightarrow> npfloat \<Rightarrow> bool" where
  "np_gt x y = np_lt y x"

definition np_le :: "npfloat \<Rightarrow> npfloat \<Rightarrow> bool" where
  "np_le x y = (np_lt x y \<or> np_eq x y)"

definition np_ge :: "npfloat \<Rightarrow> npfloat \<Rightarrow> bool" where
  "np_ge x y = np_le y x"

text \<open>\<^verbatim>\<open>a != b\<close> on floats: true as soon as one side is NaN.\<close>

definition np_ne :: "npfloat \<Rightarrow> npfloat \<Rightarrow> bool" where
  "np_ne x y = (\<not> np_eq x y)"

subsection \<open>Array primitives of numpy\<close>

text \<open>
  Arrays are flattened in row-major order. \<^verbatim>\<open>a[mask]\<close> keeps the entries whose
  mask entry is true, in order; \<^verbatim>\<open>a.sum()\<close> of an empty array is \<open>0.0\<close>.
\<close>

definition np_select :: "'a list \<Rightarrow> bool list \<Rightarrow> 'a list" where
  "np_select xs msk = map fst (filter snd (zip xs msk))"

definition np_any :: "bool list \<Rightarrow> bool" where
  "np_any msk = (True \<in> set msk)"

primrec np_sum :: "npfloat list \<Rightarrow> npfloat" where
  "np_sum [] = Fin 0"
| "np_sum (x # xs) = np_add x (np_sum xs)"

text \<open>
  \<^verbatim>\<open>numpy.max\<close> propagates NaN and raises \<^verbatim>\<open>ValueError\<close> on an empty array.
\<close>

datatype error = ValueError | IndexError | UnboundLocalError

definition bind_err :: "error + 'a \<Rightarrow> ('a \<Rightarrow> error + 'b) \<Rightarrow> error + 'b" where
  "bind_err m f = (case m of Inl e \<Rightarrow> Inl e | Inr x \<Rightarrow> f x)"

definition np_max2 :: "npfloat \<Rightarrow> npfloat \<Rightarrow> npfloat" where
  "np_max2 x y = (if isnan x \<or> isnan y then NaN else if np_lt x y then y else x)"

fun np_amax :: "npfloat list \<Rightarrow> error + npfloat" where
  "np_amax [] = Inl ValueError"
| "np_amax (x # xs) = Inr (fold np_max2 xs x)"

definition np_mean :: "npfloat list \<Rightarrow> npfloat" where
  "np_mean xs = np_div (np_sum xs) (Fin (real (length xs)))"

text \<open>
  \<^verbatim>\<open>numpy.var(x, ddof=1)\<close>: the sum of squared deviations from the mean, divided by
  \<^verbatim>\<open>max(n - 1, 0)\<close> (the subtraction on \<open>nat\<close> truncates at zero in the same way).
\<close>

definition np_var1 :: "npfloat list \<Rightarrow> npfloat" where
  "np_var1 xs =
     (let m = np_mean xs;
          d = map (\<lambda>x. np_sub x m) xs
      in np_div (np_sum (map (\<lambda>x. np_mul x x) d)) (Fin (real (length xs - 1))))"

section \<open>Validity mask of an image pair\<close>

text \<open>
  Lines 430-435 of \<^verbatim>\<open>run_image_pair_images\<close> (and again lines 743-748 of
  \<^verbatim>\<open>run_image_pair_objects\<close>), on the two images after cropping to a common shape:
  \<^verbatim>\<open>mask = first_mask & second_mask & (~numpy.isnan(first_pixel_data))
         & (~numpy.isnan(second_pixel_data))\<close>
\<close>

definition valid_mask ::
  "bool list \<Rightarrow> bool list \<Rightarrow> npfloat list \<Rightarrow> npfloat list \<Rightarrow> bool list" where
  "valid_mask first_mask second_mask first_pixel_data second_pixel_data =
     map (\<lambda>(m1, m2, a, b). m1 \<and> m2 \<and> \<not> isnan a \<and> \<not> isnan b)
       (zip first_mask (zip second_mask (zip first_pixel_data second_pixel_data)))"


section \<open>Settings and the measurement stream\<close>

text \<open>The settings of the module that the computation reads (\<^verbatim>\<open>create_settings\<close>).\<close>

record settings =
  thr :: real
  do_corr_and_slope :: bool
  do_manders :: bool
  do_rwc :: bool
  do_overlap :: bool
  do_costes :: bool

text \<open>
  A cell of the statistics table is a string; \<open>Fmt3 v\<close> stands for the string
  \<^verbatim>\<open>"%.3f" % v\<close>, whose digits are not computed here.
\<close>

datatype cell = Str string | Fmt3 npfloat

definition F_CORRELATION_FORMAT :: "string \<Rightarrow> string \<Rightarrow> string" where
  "F_CORRELATION_FORMAT a b = ''Correlation_Correlation_'' @ a @ ''_'' @ b"

definition F_SLOPE_FORMAT :: "string \<Rightarrow> string \<Rightarrow> string" where
  "F_SLOPE_FORMAT a b = ''Correlation_Slope_'' @ a @ ''_'' @ b"

definition F_OVERLAP_FORMAT :: "string \<Rightarrow> string \<Rightarrow> string" where
  "F_OVERLAP_FORMAT a b = ''Correlation_Overlap_'' @ a @ ''_'' @ b"

definition F_K_FORMAT :: "string \<Rightarrow> string \<Rightarrow> string" where
  "F_K_FORMAT a b = ''Correlation_K_'' @ a @ ''_'' @ b"

definition F_MANDERS_FORMAT :: "string \<Rightarrow> string \<Rightarrow> string" where
  "F_MANDERS_FORMAT a b = ''Correlation_Manders_'' @ a @ ''_'' @ b"

definition F_RWC_FORMAT :: "string \<Rightarrow> string \<Rightarrow> string" where
  "F_RWC_FORMAT a b = ''Correlation_RWC_'' @ a @ ''_'' @ b"

definition F_COSTES_FORMAT :: "string \<Rightarrow> string \<Rightarrow> string" where
  "F_COSTES_FORMAT a b = ''Correlation_Costes_'' @ a @ ''_'' @ b"

section \<open>Correlation and slope of a whole image pair\<close>

text \<open>
  \<^verbatim>\<open>numpy.corrcoef((fi, si))[1, 0]\<close>. numpy forms the covariance matrix
  \<^verbatim>\<open>c = dot(X, X.T) * (1 / fact)\<close> of the rows minus their means, with
  \<^verbatim>\<open>fact = max(n - 1, 0)\<close>, divides it by the square roots of its diagonal, first along
  the rows, then along the columns, and clips the result to \<open>[-1, 1]\<close>.
\<close>

definition np_cov :: "npfloat list \<Rightarrow> npfloat list \<Rightarrow> npfloat" where
  "np_cov xs ys =
     (let mx = np_mean xs;
          my = np_mean ys;
          fact = real (length xs - 1)
      in np_mul (np_sum (map2 (\<lambda>x y. np_mul (np_sub x mx) (np_sub y my)) xs ys))
           (np_div (Fin 1) (Fin fact)))"

definition np_clip :: "npfloat \<Rightarrow> npfloat \<Rightarrow> npfloat \<Rightarrow> npfloat" where
  "np_clip x lo hi =
     (if isnan x then NaN else if np_lt x lo then lo else if np_lt hi x then hi else x)"

definition corrcoef10 :: "npfloat list \<Rightarrow> npfloat list \<Rightarrow> npfloat" where
  "corrcoef10 fi si =
     (let c10 = np_cov si fi;
          stddev0 = np_sqrt (np_cov fi fi);
          stddev1 = np_sqrt (np_cov si si)
      in np_clip (np_div (np_div c10 stddev1) stddev0) (Fin (- 1)) (Fin 1))"

text \<open>
  \<^verbatim>\<open>lstsq(numpy.array((fi, numpy.ones_like(fi))).transpose(), si)[0][0]\<close> of
  \<^verbatim>\<open>scipy.linalg\<close>: the coefficient of \<open>fi\<close> in the least-squares solution of minimal
  norm of \<open>a * fi + b = si\<close>. The library refuses arrays with an infinity or a NaN
  (\<^verbatim>\<open>check_finite=True\<close>) with a \<^verbatim>\<open>ValueError\<close>. When \<open>fi\<close> is not constant the
  matrix has full rank and the solution is the regression line; when \<open>fi\<close> is constant,
  equal to \<open>c\<close>, the solutions are the pairs with \<open>a * c + b = mean si\<close> and the one
  of minimal norm is \<open>mean si * (c, 1) / (c\<^sup>2 + 1)\<close>.
\<close>

fun the_fin :: "npfloat \<Rightarrow> real" where
  "the_fin (Fin a) = a"
| "the_fin _ = 0"

definition lstsq_slope :: "npfloat list \<Rightarrow> npfloat list \<Rightarrow> error + npfloat" where
  "lstsq_slope fi si =
     (if \<not> (list_all isfinite fi \<and> list_all isfinite si) then Inl ValueError
      else
        let xs = map the_fin fi;
            ys = map the_fin si;
            n = real (length xs);
            mx = sum_list xs / n;
            my = sum_list ys / n;
            sxx = sum_list (map (\<lambda>x. (x - mx) * (x - mx)) xs);
            sxy = sum_list (map2 (\<lambda>x y. (x - mx) * (y - my)) xs ys)
        in if sxx \<noteq> 0 then Inr (Fin (sxy / sxx))
           else Inr (Fin (my * mx / (mx * mx + 1))))"

definition corr_and_slope_images ::
  "npfloat list \<Rightarrow> npfloat list \<Rightarrow> error + (npfloat \<times> npfloat)" where
  "corr_and_slope_images fi si =
     (let corr = corrcoef10 fi si
      in bind_err (lstsq_slope fi si) (\<lambda>slope. Inr (corr, slope)))"

section \<open>Threshold coefficients of a whole image pair\<close>

text \<open>
  The values shared by the Manders, RWC and overlap coefficients. In
  \<^verbatim>\<open>run_image_pair_images\<close> the two thresholds and the two totals are scalars, in
  \<^verbatim>\<open>run_image_pair_objects\<close> (where the thresholds are named \<^verbatim>\<open>tff\<close> and \<^verbatim>\<open>tss\<close>)
  they are vectors with one entry per object.
\<close>

record 'a thresh =
  thr_fi :: 'a
  thr_si :: 'a
  combined_thresh :: "bool list"
  fi_thresh :: "npfloat list"
  si_thresh :: "npfloat list"
  tot_fi_thr :: 'a
  tot_si_thr :: 'a

text \<open>
  Lines 469-475:
  \<^verbatim>\<open>thr_fi = self.thr.value * numpy.max(fi) / 100\<close>,
  \<^verbatim>\<open>combined_thresh = (fi > thr_fi) & (si > thr_si)\<close>,
  \<^verbatim>\<open>tot_fi_thr = fi[(fi > thr_fi)].sum()\<close>.
\<close>

definition thresh_images :: "real \<Rightarrow> npfloat list \<Rightarrow> npfloat list \<Rightarrow> error + npfloat thresh" where
  "thresh_images p fi si =
     bind_err (np_amax fi) (\<lambda>max_fi.
     bind_err (np_amax si) (\<lambda>max_si.
       let t_fi = np_div (np_mul (Fin p) max_fi) (Fin 100);
           t_si = np_div (np_mul (Fin p) max_si) (Fin 100);
           combined = map2 (\<lambda>f s. np_gt f t_fi \<and> np_gt s t_si) fi si
       in Inr \<lparr>thr_fi = t_fi, thr_si = t_si, combined_thresh = combined,
                fi_thresh = np_select fi combined, si_thresh = np_select si combined,
                tot_fi_thr = np_sum (np_select fi (map (\<lambda>f. np_gt f t_fi) fi)),
                tot_si_thr = np_sum (np_select si (map (\<lambda>s. np_gt s t_si) si))\<rparr>))"

text \<open>Lines 481-482: \<^verbatim>\<open>M1 = fi_thresh.sum() / tot_fi_thr\<close>.\<close>

definition manders_images :: "npfloat thresh \<Rightarrow> npfloat \<times> npfloat" where
  "manders_images t =
     (np_div (np_sum (fi_thresh t)) (tot_fi_thr t),
      np_div (np_sum (si_thresh t)) (tot_si_thr t))"

text \<open>
  Lines 542-546: the overlap coefficient and \<open>K1\<close>, \<open>K2\<close>, all over the pixels of
  \<^verbatim>\<open>combined_thresh\<close>.
\<close>

definition overlap_images :: "npfloat thresh \<Rightarrow> npfloat \<times> npfloat \<times> npfloat" where
  "overlap_images t =
     (let fs = np_sum (map2 np_mul (fi_thresh t) (si_thresh t));
          ff = np_sum (map (\<lambda>x. np_mul x x) (fi_thresh t));
          ss = np_sum (map (\<lambda>x. np_mul x x) (si_thresh t))
      in (np_div fs (np_sqrt (np_mul ff ss)), np_div fs ff, np_div fs ss))"

section \<open>Ranks for the rank-weighted coefficient\<close>

text \<open>
  numpy sorts floats with \<open>-inf\<close> first, then the finite values, then \<open>+inf\<close>, and NaN
  last. \<^verbatim>\<open>numpy.lexsort([fi])\<close> is a stable indirect sort: it returns the indices of
  \<open>fi\<close> in ascending order of value, equal values in their order of position.
\<close>

fun order_key :: "npfloat \<Rightarrow> nat \<times> real" where
  "order_key NInf = (0, 0)"
| "order_key (Fin a) = (1, a)"
| "order_key PInf = (2, 0)"
| "order_key NaN = (3, 0)"

definition lexsort1 :: "npfloat list \<Rightarrow> nat list" where
  "lexsort1 xs = sort_key (\<lambda>i. order_key (xs ! i)) [0..<length xs]"

text \<open>
  \<^verbatim>\<open>numpy.hstack([[False], fi[Rank1[:-1]] != fi[Rank1[1:]]])\<close>: whether the value at
  each sorted position differs from the one before it.
\<close>

definition rank_U :: "npfloat list \<Rightarrow> nat list \<Rightarrow> bool list" where
  "rank_U xs Rank = False # map2 (\<lambda>i j. np_ne (xs ! i) (xs ! j)) (butlast Rank) (tl Rank)"

text \<open>\<^verbatim>\<open>numpy.cumsum\<close> of a boolean array, an array of integers.\<close>

primrec cumsum_from :: "int \<Rightarrow> bool list \<Rightarrow> int list" where
  "cumsum_from acc [] = []"
| "cumsum_from acc (b # bs) =
     (acc + (if b then 1 else 0)) # cumsum_from (acc + (if b then 1 else 0)) bs"

definition np_cumsum :: "bool list \<Rightarrow> int list" where
  "np_cumsum bs = cumsum_from 0 bs"

text \<open>
  \<^verbatim>\<open>Rank_im1 = numpy.zeros(fi.shape, dtype=int); Rank_im1[Rank1] = Rank1_S\<close>: the value
  at sorted position \<open>k\<close> is stored at index \<open>Rank1[k]\<close>.
\<close>

definition np_put :: "int list \<Rightarrow> nat list \<Rightarrow> int list \<Rightarrow> int list" where
  "np_put zeros idx vals = fold (\<lambda>(i, v) a. a[i := v]) (zip idx vals) zeros"

definition rank_im :: "npfloat list \<Rightarrow> nat list \<Rightarrow> int list" where
  "rank_im xs Rank = np_put (replicate (length xs) 0) Rank (np_cumsum (rank_U xs Rank))"

fun int_amax :: "int list \<Rightarrow> error + int" where
  "int_amax [] = Inl ValueError"
| "int_amax (x # xs) = Inr (fold max xs x)"

text \<open>
  Lines 516-518 (and 956-958): \<^verbatim>\<open>R = max(Rank_im1.max(), Rank_im2.max()) + 1\<close>,
  \<^verbatim>\<open>Di = abs(Rank_im1 - Rank_im2)\<close>, \<^verbatim>\<open>weight = ((R - Di) * 1.0) / R\<close>.
\<close>

definition rwc_weight :: "int list \<Rightarrow> int list \<Rightarrow> error + npfloat list" where
  "rwc_weight Rank_im1 Rank_im2 =
     bind_err (int_amax Rank_im1) (\<lambda>m1.
     bind_err (int_amax Rank_im2) (\<lambda>m2.
       let R = max m1 m2 + 1;
           Di = map2 (\<lambda>r1 r2. \<bar>r1 - r2\<bar>) Rank_im1 Rank_im2
       in Inr (map (\<lambda>d. np_div (Fin (real_of_int (R - d))) (Fin (real_of_int R))) Di)))"

text \<open>Lines 505-521 of \<^verbatim>\<open>run_image_pair_images\<close>.\<close>

definition rwc_images ::
  "npfloat list \<Rightarrow> npfloat list \<Rightarrow> npfloat thresh \<Rightarrow> error + (npfloat \<times> npfloat)" where
  "rwc_images fi si t =
     (let Rank_im1 = rank_im fi (lexsort1 fi);
          Rank_im2 = rank_im si (lexsort1 si)
      in bind_err (rwc_weight Rank_im1 Rank_im2) (\<lambda>weight.
           let weight_thresh = np_select weight (combined_thresh t)
           in Inr (np_div (np_sum (map2 np_mul (fi_thresh t) weight_thresh)) (tot_fi_thr t),
                   np_div (np_sum (map2 np_mul (si_thresh t) weight_thresh)) (tot_si_thr t))))"


section \<open>Costes' automated threshold\<close>

text \<open>
  The contract of \<^verbatim>\<open>scipy.stats.pearsonr\<close>, of which the module reads the first
  component: a \<^verbatim>\<open>ValueError\<close> when the arrays differ in length or have fewer than two
  entries, NaN (with a warning) when one array is constant, the product of the signs of
  the two differences for two entries; otherwise the norm of the deviations is taken
  with \<^verbatim>\<open>scipy.linalg.norm\<close>, which refuses values that are not finite with a
  \<^verbatim>\<open>ValueError\<close>, and the coefficient is clipped to \<open>[-1, 1]\<close>. The functions below
  that call the correlation take it as the parameter \<open>pr\<close>; this definition is the
  instance used to evaluate them.
\<close>

fun np_sign :: "npfloat \<Rightarrow> npfloat" where
  "np_sign (Fin a) = Fin (sgn a)"
| "np_sign PInf = Fin 1"
| "np_sign NInf = Fin (- 1)"
| "np_sign NaN = NaN"

definition pearsonr :: "npfloat list \<Rightarrow> npfloat list \<Rightarrow> error + npfloat" where
  "pearsonr x y =
     (let n = length x in
      if n \<noteq> length y then Inl ValueError
      else if n < 2 then Inl ValueError
      else if list_all (\<lambda>v. np_eq v (x ! 0)) x \<or> list_all (\<lambda>v. np_eq v (y ! 0)) y then Inr NaN
      else if n = 2 then
        Inr (np_mul (np_sign (np_sub (x ! 1) (x ! 0))) (np_sign (np_sub (y ! 1) (y ! 0))))
      else
        let xmean = np_mean x;
            ymean = np_mean y;
            xm = map (\<lambda>v. np_sub v xmean) x;
            ym = map (\<lambda>v. np_sub v ymean) y
        in if \<not> (list_all isfinite xm \<and> list_all isfinite ym) then Inl ValueError
           else
             let normxm = np_sqrt (np_sum (map (\<lambda>v. np_mul v v) xm));
                 normym = np_sqrt (np_sum (map (\<lambda>v. np_mul v v) ym));
                 r = np_sum (map2 (\<lambda>u v. np_mul (np_div u normxm) (np_div v normym)) xm ym)
             in Inr (np_clip r (Fin (- 1)) (Fin 1)))"

text \<open>
  Lines 559-577 (and 1112-1129): the orthogonal regression on the pixels where one of
  the two intensities is positive.
\<close>

definition costes_nonZero :: "npfloat list \<Rightarrow> npfloat list \<Rightarrow> bool list" where
  "costes_nonZero fi si = map2 (\<lambda>f s. np_gt f (Fin 0) \<or> np_gt s (Fin 0)) fi si"

definition costes_covar :: "npfloat list \<Rightarrow> npfloat list \<Rightarrow> npfloat" where
  "costes_covar fi si =
     (let nonZero = costes_nonZero fi si;
          xvar = np_var1 (np_select fi nonZero);
          yvar = np_var1 (np_select si nonZero);
          z = map2 np_add (np_select fi nonZero) (np_select si nonZero);
          zvar = np_var1 z
      in np_mul (Fin 0.5) (np_sub zvar (np_add xvar yvar)))"

definition costes_line :: "npfloat list \<Rightarrow> npfloat list \<Rightarrow> npfloat \<times> npfloat" where
  "costes_line fi si =
     (let nonZero = costes_nonZero fi si;
          xvar = np_var1 (np_select fi nonZero);
          yvar = np_var1 (np_select si nonZero);
          xmean = np_mean (np_select fi nonZero);
          ymean = np_mean (np_select si nonZero);
          covar = costes_covar fi si;
          denom = np_mul (Fin 2) covar;
          num = np_add (np_sub yvar xvar)
                  (np_sqrt (np_add (np_mul (np_sub yvar xvar) (np_sub yvar xvar))
                                   (np_mul (Fin 4) (np_mul covar covar))));
          a = np_div num denom;
          b = np_sub ymean (np_mul a xmean)
      in (a, b))"

text \<open>
  Lines 579-590 (and, with the names in lower case, 1131-1142):
  \<^verbatim>\<open>
  i = 1
  while i > 0.003921568627:
      Thr_fi_c = i
      Thr_si_c = (a * i) + b
      combt = (fi < Thr_fi_c) | (si < Thr_si_c)
      try:
          costReg = scipy.stats.pearsonr(fi[combt], si[combt])
          if costReg[0] <= 0:
              break
          i = i - 0.003921568627
      except ValueError:
          break
  \<close>
  The state holds the two thresholds, which are unbound before the first pass, and a
  count of the passes through the loop body, which the source does not keep. An
  exception of \<open>pr\<close> other than \<^verbatim>\<open>ValueError\<close> leaves the loop as an exception.
\<close>

definition costes_step :: real where
  "costes_step = 0.003921568627"

record costes_state =
  Thr_c :: "(real \<times> npfloat) option"
  passes :: nat

lemma costes_measure_decreases:
  assumes gt: "costes_step < i"
  shows "0 < i / costes_step \<and> \<lceil>(i - costes_step) / costes_step\<rceil> < \<lceil>i / costes_step\<rceil>"
proof -
  have pos: "0 < costes_step"
    by (simp add: costes_step_def)
  have "(i - costes_step) / costes_step = i / costes_step - 1"
    using pos by (simp add: diff_divide_distrib)
  then have c: "\<lceil>(i - costes_step) / costes_step\<rceil> = \<lceil>i / costes_step\<rceil> - 1"
    by simp
  have "1 < i / costes_step"
    using gt pos by simp
  then have "0 < i / costes_step" and "1 < \<lceil>i / costes_step\<rceil>"
    by linarith+
  with c show ?thesis
    by linarith
qed

function costes_loop ::
  "(npfloat list \<Rightarrow> npfloat list \<Rightarrow> error + npfloat) \<Rightarrow> npfloat \<Rightarrow> npfloat \<Rightarrow>
   npfloat list \<Rightarrow> npfloat list \<Rightarrow> real \<Rightarrow> costes_state \<Rightarrow> error + costes_state" where
  "costes_loop pr a b fi si i st =
     (if i > costes_step then
        let Thr_fi_c = i;
            Thr_si_c = np_add (np_mul a (Fin i)) b;
            combt = map2 (\<lambda>f s. np_lt f (Fin Thr_fi_c) \<or> np_lt s Thr_si_c) fi si;
            st' = \<lparr>Thr_c = Some (Thr_fi_c, Thr_si_c), passes = Suc (passes st)\<rparr>
        in (case pr (np_select fi combt) (np_select si combt) of
              Inl e \<Rightarrow> if e = ValueError then Inr st' else Inl e
            | Inr r \<Rightarrow>
                if np_le r (Fin 0) then Inr st'
                else costes_loop pr a b fi si (i - costes_step) st')
      else Inr st)"
  by pat_completeness auto
termination
  by (relation "measure (\<lambda>(pr, a, b, fi, si, i, st). nat \<lceil>i / costes_step\<rceil>)")
     (simp_all add: costes_measure_decreases)

definition costes_thresholds ::
  "(npfloat list \<Rightarrow> npfloat list \<Rightarrow> error + npfloat) \<Rightarrow> npfloat list \<Rightarrow> npfloat list \<Rightarrow>
   error + (real \<times> npfloat)" where
  "costes_thresholds pr fi si =
     (let (a, b) = costes_line fi si
      in bind_err (costes_loop pr a b fi si 1 \<lparr>Thr_c = None, passes = 0\<rparr>) (\<lambda>st.
           case Thr_c st of None \<Rightarrow> Inl UnboundLocalError | Some t \<Rightarrow> Inr t))"

text \<open>Lines 593-603: the Manders coefficients above the thresholds found.\<close>

definition costes_images ::
  "(npfloat list \<Rightarrow> npfloat list \<Rightarrow> error + npfloat) \<Rightarrow> npfloat list \<Rightarrow> npfloat list \<Rightarrow>
   error + (npfloat \<times> npfloat)" where
  "costes_images pr fi si =
     bind_err (costes_thresholds pr fi si) (\<lambda>(Thr_fi_c, Thr_si_c).
       let combined_thresh_c = map2 (\<lambda>f s. np_gt f (Fin Thr_fi_c) \<and> np_gt s Thr_si_c) fi si;
           fi_thresh_c = np_select fi combined_thresh_c;
           si_thresh_c = np_select si combined_thresh_c;
           tot_fi_thr_c = np_sum (np_select fi (map (\<lambda>f. np_gt f (Fin Thr_fi_c)) fi));
           tot_si_thr_c = np_sum (np_select si (map (\<lambda>s. np_gt s Thr_si_c) si))
       in Inr (np_div (np_sum fi_thresh_c) tot_fi_thr_c,
               np_div (np_sum si_thresh_c) tot_si_thr_c))"


section \<open>Grouped reductions over a label array\<close>

text \<open>
  \<^verbatim>\<open>scipy.ndimage.sum\<close>, \<^verbatim>\<open>mean\<close> and \<^verbatim>\<open>maximum\<close> with a label array and an index
  array return, for each label of the index, the reduction of the entries of the
  input that carry this label: the sum is \<open>0\<close> and the maximum is \<open>0\<close> for a label
  without entries, the mean is the sum over the count (\<open>0 / 0\<close> there).
  \<^verbatim>\<open>scipy.ndimage.sum(1, labels, lrange)\<close> counts the entries of each label.
  \<^verbatim>\<open>fix\<close> (\<^verbatim>\<open>fixup_scipy_ndimage_result\<close>) only turns the result into an array.
  This is the behaviour of the library on a label array that is not empty; on an empty
  one the definitions below return the same values, where versions of the library may
  raise \<^verbatim>\<open>ValueError\<close> instead.
\<close>

definition nd_select :: "'a list \<Rightarrow> int list \<Rightarrow> int \<Rightarrow> 'a list" where
  "nd_select input labels l = np_select input (map (\<lambda>x. x = l) labels)"

definition nd_sum :: "npfloat list \<Rightarrow> int list \<Rightarrow> int list \<Rightarrow> npfloat list" where
  "nd_sum input labels index = map (\<lambda>l. np_sum (nd_select input labels l)) index"

definition nd_count :: "int list \<Rightarrow> int list \<Rightarrow> nat list" where
  "nd_count labels index = map (\<lambda>l. length (filter (\<lambda>x. x = l) labels)) index"

definition nd_mean :: "npfloat list \<Rightarrow> int list \<Rightarrow> int list \<Rightarrow> npfloat list" where
  "nd_mean input labels index = map (\<lambda>l. np_mean (nd_select input labels l)) index"

definition nd_maximum :: "npfloat list \<Rightarrow> int list \<Rightarrow> int list \<Rightarrow> npfloat list" where
  "nd_maximum input labels index =
     map (\<lambda>l. case np_amax (nd_select input labels l) of Inl e \<Rightarrow> Fin 0 | Inr m \<Rightarrow> m) index"

text \<open>\<^verbatim>\<open>lrange = numpy.arange(n_objects, dtype=numpy.int32) + 1\<close>\<close>

definition lrange_of :: "nat \<Rightarrow> int list" where
  "lrange_of n_objects = map (\<lambda>k. int k + 1) [0..<n_objects]"

text \<open>
  \<^verbatim>\<open>v[labels - 1]\<close>: the entry of a per-object vector at each pixel's label. An index
  outside \<open>[-len(v), len(v))\<close> raises \<^verbatim>\<open>IndexError\<close>; a negative one counts from the end.
\<close>

definition by_label :: "'a list \<Rightarrow> int list \<Rightarrow> error + 'a list" where
  "by_label v labels =
     (if list_all (\<lambda>l. - int (length v) \<le> l - 1 \<and> l - 1 < int (length v)) labels
      then Inr (map (\<lambda>l. v ! nat (if l - 1 < 0 then l - 1 + int (length v) else l - 1)) labels)
      else Inl IndexError)"

section \<open>Per-object coefficients\<close>

text \<open>Lines 780-807: the correlation within each object.\<close>

definition corr_objects ::
  "npfloat list \<Rightarrow> npfloat list \<Rightarrow> int list \<Rightarrow> int list \<Rightarrow> error + npfloat list" where
  "corr_objects first_pixels second_pixels labels lrange =
     (let mean1 = nd_mean first_pixels labels lrange;
          mean2 = nd_mean second_pixels labels lrange
      in bind_err (by_label mean1 labels) (\<lambda>m1.
         bind_err (by_label mean2 labels) (\<lambda>m2.
           let x = map2 np_sub first_pixels m1;
               y = map2 np_sub second_pixels m2;
               std1 = map np_sqrt (nd_sum (map (\<lambda>v. np_mul v v) x) labels lrange);
               std2 = map np_sqrt (nd_sum (map (\<lambda>v. np_mul v v) y) labels lrange)
           in bind_err (by_label std1 labels) (\<lambda>s1.
              bind_err (by_label std2 labels) (\<lambda>s2.
                let corr = nd_sum (map2 np_div (map2 np_mul x y) (map2 np_mul s1 s2))
                             labels lrange
                in Inr (map2 (\<lambda>c k. if k = 0 then NaN else c) corr
                          (nd_count labels lrange)))))))"

text \<open>
  Lines 841-862: the thresholds \<^verbatim>\<open>tff\<close>, \<^verbatim>\<open>tss\<close> are
  \<^verbatim>\<open>(self.thr.value / 100) * fix(scipy.ndimage.maximum(first_pixels, labels, lrange))\<close>,
  the comparison with them is \<^verbatim>\<open>>=\<close>, and the totals are grouped sums.
\<close>

definition thresh_objects ::
  "real \<Rightarrow> npfloat list \<Rightarrow> npfloat list \<Rightarrow> int list \<Rightarrow> int list \<Rightarrow>
   error + (npfloat list) thresh" where
  "thresh_objects p first_pixels second_pixels labels lrange =
     (let tff = map (np_mul (Fin (p / 100))) (nd_maximum first_pixels labels lrange);
          tss = map (np_mul (Fin (p / 100))) (nd_maximum second_pixels labels lrange)
      in bind_err (by_label tff labels) (\<lambda>tf.
         bind_err (by_label tss labels) (\<lambda>ts.
           let above_f = map2 np_ge first_pixels tf;
               above_s = map2 np_ge second_pixels ts;
               combined = map2 (\<and>) above_f above_s
           in Inr \<lparr>thr_fi = tff, thr_si = tss, combined_thresh = combined,
                    fi_thresh = np_select first_pixels combined,
                    si_thresh = np_select second_pixels combined,
                    tot_fi_thr = nd_sum (np_select first_pixels above_f)
                                   (np_select labels above_f) lrange,
                    tot_si_thr = nd_sum (np_select second_pixels above_s)
                                   (np_select labels above_s) lrange\<rparr>)))"

definition np_zeros :: "nat \<Rightarrow> npfloat list" where
  "np_zeros n = replicate n (Fin 0)"

text \<open>Lines 866-875.\<close>

definition manders_objects ::
  "(npfloat list) thresh \<Rightarrow> int list \<Rightarrow> int list \<Rightarrow> npfloat list \<times> npfloat list" where
  "manders_objects t labels lrange =
     (if np_any (combined_thresh t) then
        (map2 np_div (nd_sum (fi_thresh t) (np_select labels (combined_thresh t)) lrange)
           (tot_fi_thr t),
         map2 np_div (nd_sum (si_thresh t) (np_select labels (combined_thresh t)) lrange)
           (tot_si_thr t))
      else (np_zeros (length lrange), np_zeros (length lrange)))"

text \<open>
  Lines 941-942: \<^verbatim>\<open>[Rank1] = numpy.lexsort(([labels], [first_pixels]))\<close>. The last key
  of \<^verbatim>\<open>lexsort\<close> is the primary one: the pixels of all objects together are sorted by
  intensity, pixels of equal intensity by label.
\<close>

definition lexsort2 :: "int list \<Rightarrow> npfloat list \<Rightarrow> nat list" where
  "lexsort2 labels xs = sort_key (\<lambda>i. (order_key (xs ! i), labels ! i)) [0..<length xs]"

text \<open>Lines 939-971.\<close>

definition rwc_objects ::
  "npfloat list \<Rightarrow> npfloat list \<Rightarrow> int list \<Rightarrow> (npfloat list) thresh \<Rightarrow> int list \<Rightarrow>
   error + (npfloat list \<times> npfloat list)" where
  "rwc_objects first_pixels second_pixels labels t lrange =
     (let Rank_im1 = rank_im first_pixels (lexsort2 labels first_pixels);
          Rank_im2 = rank_im second_pixels (lexsort2 labels second_pixels)
      in bind_err (rwc_weight Rank_im1 Rank_im2) (\<lambda>weight.
           let weight_thresh = np_select weight (combined_thresh t)
           in if np_any (combined_thresh t) then
                Inr (map2 np_div
                       (nd_sum (map2 np_mul (fi_thresh t) weight_thresh)
                          (np_select labels (combined_thresh t)) lrange)
                       (tot_fi_thr t),
                     map2 np_div
                       (nd_sum (map2 np_mul (si_thresh t) weight_thresh)
                          (np_select labels (combined_thresh t)) lrange)
                       (tot_si_thr t))
              else Inr (np_zeros (length lrange), np_zeros (length lrange))))"

text \<open>Lines 1036-1079.\<close>

definition overlap_objects ::
  "(npfloat list) thresh \<Rightarrow> int list \<Rightarrow> int list \<Rightarrow>
   npfloat list \<times> npfloat list \<times> npfloat list" where
  "overlap_objects t labels lrange =
     (if np_any (combined_thresh t) then
        let lt = np_select labels (combined_thresh t);
            fpsq = nd_sum (map (\<lambda>v. np_mul v v) (fi_thresh t)) lt lrange;
            spsq = nd_sum (map (\<lambda>v. np_mul v v) (si_thresh t)) lt lrange;
            pdt = map np_sqrt (map2 np_mul fpsq spsq);
            fs = nd_sum (map2 np_mul (fi_thresh t) (si_thresh t)) lt lrange
        in (map2 np_div fs pdt, map2 np_div fs fpsq, map2 np_div fs spsq)
      else (np_zeros (length lrange), np_zeros (length lrange), np_zeros (length lrange)))"

text \<open>
  Lines 1112-1180. The thresholds are searched on \<open>fi\<close> and \<open>si\<close>, the valid pixels of
  the whole image pair, with the same statements as in \<^verbatim>\<open>run_image_pair_images\<close>, and
  are then compared with the pixels of the objects.
\<close>

definition costes_objects ::
  "(npfloat list \<Rightarrow> npfloat list \<Rightarrow> error + npfloat) \<Rightarrow> npfloat list \<Rightarrow> npfloat list \<Rightarrow>
   npfloat list \<Rightarrow> npfloat list \<Rightarrow> int list \<Rightarrow> int list \<Rightarrow>
   error + (npfloat list \<times> npfloat list)" where
  "costes_objects pr fi si first_pixels second_pixels labels lrange =
     bind_err (costes_thresholds pr fi si) (\<lambda>(thr_fi_c, thr_si_c).
       let fi_above_thr = map (\<lambda>f. np_gt f (Fin thr_fi_c)) first_pixels;
           si_above_thr = map (\<lambda>s. np_gt s thr_si_c) second_pixels;
           combined_thresh_c = map2 (\<and>) fi_above_thr si_above_thr;
           fi_thresh_c = np_select first_pixels combined_thresh_c;
           si_thresh_c = np_select second_pixels combined_thresh_c;
           fi_ge = map (\<lambda>f. np_ge f (Fin thr_fi_c)) first_pixels;
           si_ge = map (\<lambda>s. np_ge s thr_si_c) second_pixels;
           tot_fi_thr_c =
             (if np_any fi_above_thr
              then nd_sum (np_select first_pixels fi_ge) (np_select labels fi_ge) lrange
              else np_zeros (length lrange));
           tot_si_thr_c =
             (if np_any si_above_thr
              then nd_sum (np_select second_pixels si_ge) (np_select labels si_ge) lrange
              else np_zeros (length lrange))
       in if np_any combined_thresh_c then
            Inr (map2 np_div
                   (nd_sum fi_thresh_c (np_select labels combined_thresh_c) lrange)
                   tot_fi_thr_c,
                 map2 np_div
                   (nd_sum si_thresh_c (np_select labels combined_thresh_c) lrange)
                   tot_si_thr_c)
          else Inr (np_zeros (length lrange), np_zeros (length lrange)))"


section \<open>The two entry points\<close>

text \<open>A family of measurements that is switched off leaves its variables unbound.\<close>

definition opt_when :: "bool \<Rightarrow> error + 'a \<Rightarrow> error + 'a option" where
  "opt_when flag m = (if flag then bind_err m (\<lambda>x. Inr (Some x)) else Inr None)"

text \<open>The calls of \<^verbatim>\<open>workspace.measurements.add_image_measurement\<close>, lines 638-682.\<close>

definition image_measurements ::
  "string \<Rightarrow> string \<Rightarrow> (npfloat \<times> npfloat) option \<Rightarrow> (npfloat \<times> npfloat \<times> npfloat) option \<Rightarrow>
   (npfloat \<times> npfloat) option \<Rightarrow> (npfloat \<times> npfloat) option \<Rightarrow> (npfloat \<times> npfloat) option \<Rightarrow>
   (string \<times> npfloat) list" where
  "image_measurements a b cs ov ma rw co =
     (case cs of None \<Rightarrow> []
      | Some (corr, slope) \<Rightarrow> [(F_CORRELATION_FORMAT a b, corr), (F_SLOPE_FORMAT a b, slope)]) @
     (case ov of None \<Rightarrow> []
      | Some (overlap, K1, K2) \<Rightarrow>
          [(F_OVERLAP_FORMAT a b, overlap), (F_K_FORMAT a b, K1), (F_K_FORMAT b a, K2)]) @
     (case ma of None \<Rightarrow> []
      | Some (M1, M2) \<Rightarrow> [(F_MANDERS_FORMAT a b, M1), (F_MANDERS_FORMAT b a, M2)]) @
     (case rw of None \<Rightarrow> []
      | Some (RWC1, RWC2) \<Rightarrow> [(F_RWC_FORMAT a b, RWC1), (F_RWC_FORMAT b a, RWC2)]) @
     (case co of None \<Rightarrow> []
      | Some (C1, C2) \<Rightarrow> [(F_COSTES_FORMAT a b, C1), (F_COSTES_FORMAT b a, C2)])"

text \<open>The rows appended to \<^verbatim>\<open>result\<close> in the branch that computes, in their order.\<close>

definition image_rows ::
  "string \<Rightarrow> string \<Rightarrow> (npfloat \<times> npfloat) option \<Rightarrow> (npfloat \<times> npfloat) option \<Rightarrow>
   (npfloat \<times> npfloat) option \<Rightarrow> (npfloat \<times> npfloat \<times> npfloat) option \<Rightarrow>
   (npfloat \<times> npfloat) option \<Rightarrow> cell list list" where
  "image_rows a b cs ma rw ov co =
     (case cs of None \<Rightarrow> []
      | Some (corr, slope) \<Rightarrow>
          [[Str a, Str b, Str ''-'', Str ''Correlation'', Fmt3 corr],
           [Str a, Str b, Str ''-'', Str ''Slope'', Fmt3 slope]]) @
     (case ma of None \<Rightarrow> []
      | Some (M1, M2) \<Rightarrow>
          [[Str a, Str b, Str ''-'', Str ''Manders Coefficient'', Fmt3 M1],
           [Str b, Str a, Str ''-'', Str ''Manders Coefficient'', Fmt3 M2]]) @
     (case rw of None \<Rightarrow> []
      | Some (RWC1, RWC2) \<Rightarrow>
          [[Str a, Str b, Str ''-'', Str ''RWC Coefficient'', Fmt3 RWC1],
           [Str b, Str a, Str ''-'', Str ''RWC Coefficient'', Fmt3 RWC2]]) @
     (case ov of None \<Rightarrow> []
      | Some (overlap, K1, K2) \<Rightarrow>
          [[Str a, Str b, Str ''-'', Str ''Overlap Coefficient'', Fmt3 overlap]]) @
     (case co of None \<Rightarrow> []
      | Some (C1, C2) \<Rightarrow>
          [[Str a, Str b, Str ''-'', Str ''Manders Coefficient (Costes)'', Fmt3 C1],
           [Str b, Str a, Str ''-'', Str ''Manders Coefficient (Costes)'', Fmt3 C2]])"

text \<open>
  \<^verbatim>\<open>run_image_pair_images\<close>, on the pixel data and masks of the two images after the
  larger one has been cropped to the smaller one (\<^verbatim>\<open>crop_image_similarly\<close> belongs to
  the image class). The result is the list of rows returned and the list of image
  measurements added, or the exception raised.
\<close>

definition run_image_pair_images ::
  "settings \<Rightarrow> (npfloat list \<Rightarrow> npfloat list \<Rightarrow> error + npfloat) \<Rightarrow> string \<Rightarrow> string \<Rightarrow>
   npfloat list \<Rightarrow> bool list \<Rightarrow> npfloat list \<Rightarrow> bool list \<Rightarrow>
   error + (cell list list \<times> (string \<times> npfloat) list)" where
  "run_image_pair_images S pr first_image_name second_image_name
       first_pixel_data first_mask second_pixel_data second_mask =
     (let msk = valid_mask first_mask second_mask first_pixel_data second_pixel_data in
      if np_any msk then
        let fi = np_select first_pixel_data msk;
            si = np_select second_pixel_data msk;
            t = thresh_images (thr S) fi si
        in bind_err (opt_when (do_corr_and_slope S) (corr_and_slope_images fi si)) (\<lambda>cs.
           bind_err (opt_when (do_manders S) (bind_err t (\<lambda>t. Inr (manders_images t)))) (\<lambda>ma.
           bind_err (opt_when (do_rwc S) (bind_err t (rwc_images fi si))) (\<lambda>rw.
           bind_err (opt_when (do_overlap S) (bind_err t (\<lambda>t. Inr (overlap_images t)))) (\<lambda>ov.
           bind_err (opt_when (do_costes S) (costes_images pr fi si)) (\<lambda>co.
             Inr (image_rows first_image_name second_image_name cs ma rw ov co,
                  image_measurements first_image_name second_image_name cs ov ma rw co))))))
      else
        Inr ([],
             image_measurements first_image_name second_image_name
               (if do_corr_and_slope S then Some (NaN, NaN) else None)
               (if do_overlap S then Some (NaN, NaN, NaN) else None)
               (if do_manders S then Some (NaN, NaN) else None)
               (if do_rwc S then Some (NaN, NaN) else None)
               (if do_costes S then Some (NaN, NaN) else None)))"

subsection \<open>Summaries of a per-object vector\<close>

text \<open>
  \<^verbatim>\<open>numpy.min\<close> and \<^verbatim>\<open>numpy.max\<close> propagate NaN and refuse an empty array;
  \<^verbatim>\<open>numpy.median\<close> is NaN for an empty array or an array with a NaN, the middle
  value of the sorted array or the mean of its two middle values otherwise.
\<close>

definition np_min2 :: "npfloat \<Rightarrow> npfloat \<Rightarrow> npfloat" where
  "np_min2 x y = (if isnan x \<or> isnan y then NaN else if np_lt y x then y else x)"

fun np_amin :: "npfloat list \<Rightarrow> error + npfloat" where
  "np_amin [] = Inl ValueError"
| "np_amin (x # xs) = Inr (fold np_min2 xs x)"

definition np_median :: "npfloat list \<Rightarrow> npfloat" where
  "np_median v =
     (let n = length v; srt = sort_key order_key v in
      if n = 0 \<or> list_ex isnan v then NaN
      else if odd n then srt ! (n div 2)
      else np_mean [srt ! (n div 2 - 1), srt ! (n div 2)])"

definition summary_rows ::
  "string \<Rightarrow> string \<Rightarrow> string \<Rightarrow> string \<Rightarrow> npfloat list \<Rightarrow> error + cell list list" where
  "summary_rows a b object_name what v =
     bind_err (np_amin v) (\<lambda>mn.
     bind_err (np_amax v) (\<lambda>mx.
       Inr [[Str a, Str b, Str object_name, Str (''Mean '' @ what), Fmt3 (np_mean v)],
            [Str a, Str b, Str object_name, Str (''Median '' @ what), Fmt3 (np_median v)],
            [Str a, Str b, Str object_name, Str (''Min '' @ what), Fmt3 mn],
            [Str a, Str b, Str object_name, Str (''Max '' @ what), Fmt3 mx]]))"

definition summary_rows2 ::
  "string \<Rightarrow> string \<Rightarrow> string \<Rightarrow> string \<Rightarrow> npfloat list \<times> npfloat list \<Rightarrow>
   error + cell list list" where
  "summary_rows2 a b object_name what v =
     bind_err (summary_rows a b object_name what (fst v)) (\<lambda>r1.
     bind_err (summary_rows b a object_name what (snd v)) (\<lambda>r2. Inr (r1 @ r2)))"

text \<open>The calls of \<^verbatim>\<open>workspace.measurements.add_measurement\<close>, lines 1242-1294.\<close>

definition object_measurements ::
  "string \<Rightarrow> string \<Rightarrow> string \<Rightarrow> npfloat list option \<Rightarrow>
   (npfloat list \<times> npfloat list) option \<Rightarrow> (npfloat list \<times> npfloat list) option \<Rightarrow>
   (npfloat list \<times> npfloat list \<times> npfloat list) option \<Rightarrow>
   (npfloat list \<times> npfloat list) option \<Rightarrow> (string \<times> string \<times> npfloat list) list" where
  "object_measurements a b object_name cr ma rw ov co =
     (case cr of None \<Rightarrow> []
      | Some corr \<Rightarrow> [(object_name, F_CORRELATION_FORMAT a b, corr)]) @
     (case ma of None \<Rightarrow> []
      | Some (M1, M2) \<Rightarrow>
          [(object_name, F_MANDERS_FORMAT a b, M1), (object_name, F_MANDERS_FORMAT b a, M2)]) @
     (case rw of None \<Rightarrow> []
      | Some (RWC1, RWC2) \<Rightarrow>
          [(object_name, F_RWC_FORMAT a b, RWC1), (object_name, F_RWC_FORMAT b a, RWC2)]) @
     (case ov of None \<Rightarrow> []
      | Some (overlap, K1, K2) \<Rightarrow>
          [(object_name, F_OVERLAP_FORMAT a b, overlap), (object_name, F_K_FORMAT a b, K1),
           (object_name, F_K_FORMAT b a, K2)]) @
     (case co of None \<Rightarrow> []
      | Some (C1, C2) \<Rightarrow>
          [(object_name, F_COSTES_FORMAT a b, C1), (object_name, F_COSTES_FORMAT b a, C2)])"

text \<open>The measurements when every family that is switched on holds the same vector.\<close>

definition object_measurements_all ::
  "settings \<Rightarrow> string \<Rightarrow> string \<Rightarrow> string \<Rightarrow> npfloat list \<Rightarrow>
   (string \<times> string \<times> npfloat list) list" where
  "object_measurements_all S a b object_name v =
     object_measurements a b object_name
       (if do_corr_and_slope S then Some v else None)
       (if do_manders S then Some (v, v) else None)
       (if do_rwc S then Some (v, v) else None)
       (if do_overlap S then Some (v, v, v) else None)
       (if do_costes S then Some (v, v) else None)"

text \<open>Lines 1296-1326: the table returned when there is no object.\<close>

definition no_object_rows :: "string \<Rightarrow> string \<Rightarrow> string \<Rightarrow> cell list list" where
  "no_object_rows a b object_name =
     [[Str a, Str b, Str object_name, Str ''Mean correlation'', Str ''-''],
      [Str a, Str b, Str object_name, Str ''Median correlation'', Str ''-''],
      [Str a, Str b, Str object_name, Str ''Min correlation'', Str ''-''],
      [Str a, Str b, Str object_name, Str ''Max correlation'', Str ''-'']]"

text \<open>
  The arrays read by \<^verbatim>\<open>run_image_pair_objects\<close>: the label matrix and the object
  count, each image and its mask brought to the shape of the label matrix
  (\<^verbatim>\<open>crop_image_similarly\<close> and \<^verbatim>\<open>size_similarly\<close> belong to the object class), and the
  two images and masks cropped to each other as in \<^verbatim>\<open>run_image_pair_images\<close>.
\<close>

record object_inputs =
  segmented :: "int list"
  n_objects :: nat
  first_pixels_l :: "npfloat list"
  first_mask_l :: "bool list"
  second_pixels_l :: "npfloat list"
  second_mask_l :: "bool list"
  first_pixel_data :: "npfloat list"
  first_mask :: "bool list"
  second_pixel_data :: "npfloat list"
  second_mask :: "bool list"

definition run_image_pair_objects ::
  "settings \<Rightarrow> (npfloat list \<Rightarrow> npfloat list \<Rightarrow> error + npfloat) \<Rightarrow> string \<Rightarrow> string \<Rightarrow>
   string \<Rightarrow> object_inputs \<Rightarrow>
   error + (cell list list \<times> (string \<times> string \<times> npfloat list) list)" where
  "run_image_pair_objects S pr first_image_name second_image_name object_name inp =
     (let msk_l = map2 (\<lambda>l (m1, m2). 0 < l \<and> m1 \<and> m2) (segmented inp)
                    (zip (first_mask_l inp) (second_mask_l inp));
          first_pixels = np_select (first_pixels_l inp) msk_l;
          second_pixels = np_select (second_pixels_l inp) msk_l;
          labels = np_select (segmented inp) msk_l;
          msk = valid_mask (first_mask inp) (second_mask inp)
                  (first_pixel_data inp) (second_pixel_data inp);
          fi = np_select (first_pixel_data inp) msk;
          si = np_select (second_pixel_data inp) msk
      in
      if n_objects inp = 0 then
        Inr (no_object_rows first_image_name second_image_name object_name,
             object_measurements_all S first_image_name second_image_name object_name
               (np_zeros 0))
      else if length (filter id msk) = 0 then
        Inr ([],
             object_measurements_all S first_image_name second_image_name object_name
               (replicate (n_objects inp) NaN))
      else
        let lrange = lrange_of (n_objects inp);
            t = thresh_objects (thr S) first_pixels second_pixels labels lrange
        in bind_err (opt_when (do_corr_and_slope S)
                       (corr_objects first_pixels second_pixels labels lrange)) (\<lambda>cr.
           bind_err (case cr of None \<Rightarrow> Inr []
                     | Some corr \<Rightarrow>
                         summary_rows first_image_name second_image_name object_name
                           ''Correlation coeff'' corr) (\<lambda>rows_cr.
           bind_err (opt_when (do_manders S)
                       (bind_err t (\<lambda>t. Inr (manders_objects t labels lrange)))) (\<lambda>ma.
           bind_err (case ma of None \<Rightarrow> Inr []
                     | Some M \<Rightarrow>
                         summary_rows2 first_image_name second_image_name object_name
                           ''Manders coeff'' M) (\<lambda>rows_ma.
           bind_err (opt_when (do_rwc S)
                       (bind_err t (\<lambda>t. rwc_objects first_pixels second_pixels labels t lrange)))
                    (\<lambda>rw.
           bind_err (case rw of None \<Rightarrow> Inr []
                     | Some RWC \<Rightarrow>
                         summary_rows2 first_image_name second_image_name object_name
                           ''RWC coeff'' RWC) (\<lambda>rows_rw.
           bind_err (opt_when (do_overlap S)
                       (bind_err t (\<lambda>t. Inr (overlap_objects t labels lrange)))) (\<lambda>ov.
           bind_err (case ov of None \<Rightarrow> Inr []
                     | Some (overlap, K1, K2) \<Rightarrow>
                         summary_rows first_image_name second_image_name object_name
                           ''Overlap coeff'' overlap) (\<lambda>rows_ov.
           bind_err (opt_when (do_costes S)
                       (costes_objects pr fi si first_pixels second_pixels labels lrange))
                    (\<lambda>co.
           bind_err (case co of None \<Rightarrow> Inr []
                     | Some C \<Rightarrow>
                         summary_rows2 first_image_name second_image_name object_name
                           ''Manders coeff (Costes)'' C) (\<lambda>rows_co.
             Inr (rows_cr @ rows_ma @ rows_rw @ rows_ov @ rows_co,
                  object_measurements first_image_name second_image_name object_name
                    cr ma rw ov co))))))))))))"


section \<open>Properties\<close>

subsection \<open>The validity mask\<close>

text \<open>
  Claim C2, as the source has it: for two images of a common shape, the validity mask is
  the elementwise conjunction of the two image masks with the tests that neither
  intensity is NaN. A pixel whose intensity is NaN in one of the images is excluded; the
  test is \<^verbatim>\<open>~numpy.isnan\<close>, so an infinite intensity does not exclude a pixel.
\<close>

theorem valid_mask_excludes_nan_only:
  assumes "length fm = n" and "length sm = n" and "length fpd = n" and "length spd = n"
  shows "length (valid_mask fm sm fpd spd) = n \<and>
         (\<forall>k<n. valid_mask fm sm fpd spd ! k =
            (fm ! k \<and> sm ! k \<and> \<not> isnan (fpd ! k) \<and> \<not> isnan (spd ! k)))"
  using assms by (simp add: valid_mask_def)

theorem valid_mask_excludes_nan_only_witness:
  "length (valid_mask [True, True, True] [True, True, False]
             [PInf, NaN, Fin 1] [Fin 2, Fin 3, Fin 4]) = 3 \<and>
   valid_mask [True, True, True] [True, True, False]
     [PInf, NaN, Fin 1] [Fin 2, Fin 3, Fin 4] ! 0 = True \<and>
   valid_mask [True, True, True] [True, True, False]
     [PInf, NaN, Fin 1] [Fin 2, Fin 3, Fin 4] ! 1 = False \<and>
   valid_mask [True, True, True] [True, True, False]
     [PInf, NaN, Fin 1] [Fin 2, Fin 3, Fin 4] ! 2 = False"
  using valid_mask_excludes_nan_only [of "[True, True, True]" 3 "[True, True, False]"
      "[PInf, NaN, Fin 1]" "[Fin 2, Fin 3, Fin 4]"]
  by simp

text \<open>
  Claim C2 as the specification words it, with a test of finiteness, fails on a pixel
  whose first intensity is \<open>+inf\<close>: both masks hold there and the pixel is kept.
\<close>

theorem valid_mask_keeps_infinity:
  "valid_mask [True] [True] [PInf] [Fin 0] ! 0 \<noteq>
     (True \<and> True \<and> isfinite PInf \<and> isfinite (Fin 0))"
  by (simp add: valid_mask_def)


subsection \<open>An empty combined threshold mask in a whole image pair\<close>

text \<open>
  Claim C1 names the image pair \<open>fi = [10, 20, 0, 0]\<close>, \<open>si = [0, 0, 10, 20]\<close> with
  both masks true everywhere and a threshold of 15 percent. The thresholds are \<open>3\<close> and
  \<open>3\<close>, no pixel is above both, and \<^verbatim>\<open>run_image_pair_images\<close> reports \<open>0\<close> for the two
  Manders and the two RWC coefficients, whose denominators are \<open>30\<close>, but NaN for
  the overlap coefficient and for \<open>K1\<close> and \<open>K2\<close>, which are \<open>0 / 0\<close>: the
  whole-image code divides without the test \<^verbatim>\<open>numpy.any(combined_thresh)\<close> that
  \<^verbatim>\<open>run_image_pair_objects\<close> makes.
\<close>

theorem empty_combined_thresh_images_overlap_nan:
  "run_image_pair_images
     \<lparr>thr = 15, do_corr_and_slope = False, do_manders = True, do_rwc = True,
      do_overlap = True, do_costes = False\<rparr> pearsonr ''A'' ''B''
     [Fin 10, Fin 20, Fin 0, Fin 0] [True, True, True, True]
     [Fin 0, Fin 0, Fin 10, Fin 20] [True, True, True, True] =
   Inr ([[Str ''A'', Str ''B'', Str ''-'', Str ''Manders Coefficient'', Fmt3 (Fin 0)],
         [Str ''B'', Str ''A'', Str ''-'', Str ''Manders Coefficient'', Fmt3 (Fin 0)],
         [Str ''A'', Str ''B'', Str ''-'', Str ''RWC Coefficient'', Fmt3 (Fin 0)],
         [Str ''B'', Str ''A'', Str ''-'', Str ''RWC Coefficient'', Fmt3 (Fin 0)],
         [Str ''A'', Str ''B'', Str ''-'', Str ''Overlap Coefficient'', Fmt3 NaN]],
        [(''Correlation_Overlap_A_B'', NaN), (''Correlation_K_A_B'', NaN),
         (''Correlation_K_B_A'', NaN), (''Correlation_Manders_A_B'', Fin 0),
         (''Correlation_Manders_B_A'', Fin 0), (''Correlation_RWC_A_B'', Fin 0),
         (''Correlation_RWC_B_A'', Fin 0)])"
  by (simp add: Let_def run_image_pair_images_def valid_mask_def np_any_def np_select_def
      opt_when_def bind_err_def thresh_images_def np_max2_def np_gt_def manders_images_def
      overlap_images_def rwc_images_def rank_im_def lexsort1_def np_put_def np_cumsum_def
      rank_U_def np_ne_def upt_rec rwc_weight_def image_measurements_def image_rows_def
      F_OVERLAP_FORMAT_def F_K_FORMAT_def F_MANDERS_FORMAT_def F_RWC_FORMAT_def)

text \<open>
  In \<^verbatim>\<open>run_image_pair_objects\<close> the test \<^verbatim>\<open>numpy.any(combined_thresh)\<close> looks at the
  pixels of all objects together. With two objects of which only the second has pixels
  that reach both thresholds, the first object has the Manders coefficients \<open>0\<close> and
  the overlap coefficient and \<open>K1\<close>, \<open>K2\<close> NaN.
\<close>

lemma empty_combined_thresh_one_object_overlap_nan:
  "map_sum id (\<lambda>t. (manders_objects t [1, 1, 2, 2] [1, 2], overlap_objects t [1, 1, 2, 2] [1, 2]))
     (thresh_objects 50 [Fin 1, Fin 0, Fin 2, Fin 2] [Fin 0, Fin 1, Fin 2, Fin 2]
        [1, 1, 2, 2] [1, 2]) =
   Inr (([Fin 0, Fin 1], [Fin 0, Fin 1]), ([NaN, Fin 1], [NaN, Fin 1], [NaN, Fin 1]))"
  by (simp add: thresh_objects_def nd_maximum_def nd_select_def np_select_def np_max2_def
      by_label_def bind_err_def Let_def np_ge_def np_le_def nd_sum_def manders_objects_def
      overlap_objects_def np_any_def)

subsection \<open>The search loop of Costes' threshold\<close>

declare costes_loop.simps [simp del]

lemma costes_step_pos: "0 < costes_step"
  by (simp add: costes_step_def)

lemma costes_ceiling_step:
  assumes gt: "costes_step < i"
  shows "nat (\<lceil>i / costes_step\<rceil> - 1) = Suc (nat (\<lceil>(i - costes_step) / costes_step\<rceil> - 1))"
proof -
  have "(i - costes_step) / costes_step = i / costes_step - 1"
    using costes_step_pos by (simp add: diff_divide_distrib)
  then have c: "\<lceil>(i - costes_step) / costes_step\<rceil> = \<lceil>i / costes_step\<rceil> - 1"
    by simp
  have "1 < i / costes_step"
    using gt costes_step_pos by simp
  then have "1 < \<lceil>i / costes_step\<rceil>"
    by linarith
  with c show ?thesis by linarith
qed

lemma costes_ceiling_one: "\<lceil>1 / costes_step\<rceil> = 256"
  by (rule ceiling_unique) (simp_all add: costes_step_def)

lemma costes_loop_done: "\<not> costes_step < i \<Longrightarrow> costes_loop pr a b fi si i st = Inr st"
  by (subst costes_loop.simps) simp

lemma costes_loop_ValueError:
  "costes_step < i \<Longrightarrow>
   pr (np_select fi (map2 (\<lambda>f s. np_lt f (Fin i) \<or> np_lt s (np_add (np_mul a (Fin i)) b)) fi si))
      (np_select si (map2 (\<lambda>f s. np_lt f (Fin i) \<or> np_lt s (np_add (np_mul a (Fin i)) b)) fi si)) = Inl ValueError \<Longrightarrow>
   costes_loop pr a b fi si i st =
     Inr \<lparr>Thr_c = Some (i, np_add (np_mul a (Fin i)) b), passes = Suc (passes st)\<rparr>"
  by (subst costes_loop.simps) (simp add: Let_def)

lemma costes_loop_stop:
  "costes_step < i \<Longrightarrow>
   pr (np_select fi (map2 (\<lambda>f s. np_lt f (Fin i) \<or> np_lt s (np_add (np_mul a (Fin i)) b)) fi si))
      (np_select si (map2 (\<lambda>f s. np_lt f (Fin i) \<or> np_lt s (np_add (np_mul a (Fin i)) b)) fi si)) = Inr r \<Longrightarrow>
   np_le r (Fin 0) \<Longrightarrow>
   costes_loop pr a b fi si i st =
     Inr \<lparr>Thr_c = Some (i, np_add (np_mul a (Fin i)) b), passes = Suc (passes st)\<rparr>"
  by (subst costes_loop.simps) (simp add: Let_def)

lemma costes_loop_continue:
  "costes_step < i \<Longrightarrow>
   pr (np_select fi (map2 (\<lambda>f s. np_lt f (Fin i) \<or> np_lt s (np_add (np_mul a (Fin i)) b)) fi si))
      (np_select si (map2 (\<lambda>f s. np_lt f (Fin i) \<or> np_lt s (np_add (np_mul a (Fin i)) b)) fi si)) = Inr r \<Longrightarrow>
   \<not> np_le r (Fin 0) \<Longrightarrow>
   costes_loop pr a b fi si i st =
     costes_loop pr a b fi si (i - costes_step)
       \<lparr>Thr_c = Some (i, np_add (np_mul a (Fin i)) b), passes = Suc (passes st)\<rparr>"
  by (subst costes_loop.simps) (simp add: Let_def)

lemma costes_loop_bound:
  assumes ok: "\<And>x y. pr x y \<noteq> Inl IndexError \<and> pr x y \<noteq> Inl UnboundLocalError"
  shows "\<exists>st'. costes_loop pr a b fi si i st = Inr st' \<and>
           passes st \<le> passes st' \<and>
           passes st' \<le> passes st + nat (\<lceil>i / costes_step\<rceil> - 1) \<and>
           (costes_step < i \<longrightarrow> passes st < passes st' \<and>
              (\<exists>j t. Thr_c st' = Some (j, t) \<and> j \<le> i))"
  using ok
proof (induction pr a b fi si i st rule: costes_loop.induct)
  case (1 pr a b fi si i st)
  note ok = "1.prems"
  let ?T = "np_add (np_mul a (Fin i)) b"
  let ?c = "map2 (\<lambda>f s. np_lt f (Fin i) \<or> np_lt s ?T) fi si"
  let ?st = "\<lparr>Thr_c = Some (i, ?T), passes = Suc (passes st)\<rparr>"
  show ?case
  proof (cases "costes_step < i")
    case False
    then show ?thesis by (simp add: costes_loop_done)
  next
    case gt: True
    note cs = costes_ceiling_step [OF gt]
    show ?thesis
    proof (cases "pr (np_select fi ?c) (np_select si ?c)")
      case (Inl e)
      then have "e = ValueError"
        using Inl ok [of "np_select fi ?c" "np_select si ?c"] by (cases e) auto
      with Inl gt cs show ?thesis
        by (simp add: costes_loop_ValueError)
    next
      case (Inr r)
      show ?thesis
      proof (cases "np_le r (Fin 0)")
        case True
        with Inr gt cs show ?thesis
          by (simp add: costes_loop_stop)
      next
        case False
        have eq: "costes_loop pr a b fi si i st = costes_loop pr a b fi si (i - costes_step) ?st"
          using gt Inr False by (rule costes_loop_continue)
        from "1.IH" [OF gt refl refl refl refl Inr False ok]
        obtain st' where r: "costes_loop pr a b fi si (i - costes_step) ?st = Inr st'"
          and lo: "passes ?st \<le> passes st'"
          and hi: "passes st' \<le> passes ?st + nat (\<lceil>(i - costes_step) / costes_step\<rceil> - 1)"
          and thr: "costes_step < i - costes_step \<longrightarrow>
                      (\<exists>j t. Thr_c st' = Some (j, t) \<and> j \<le> i - costes_step)"
          by blast
        have t: "\<exists>j t. Thr_c st' = Some (j, t) \<and> j \<le> i"
        proof (cases "costes_step < i - costes_step")
          case True
          with thr costes_step_pos show ?thesis by fastforce
        next
          case False
          then have "st' = ?st" using r by (simp add: costes_loop_done)
          then show ?thesis by simp
        qed
        from lo hi cs have "passes st < passes st'"
          and "passes st' \<le> passes st + nat (\<lceil>i / costes_step\<rceil> - 1)"
          by simp_all
        with eq r t show ?thesis by simp
      qed
    qed
  qed
qed


lemma pearsonr_raises_only_ValueError:
  "pearsonr x y \<noteq> Inl IndexError \<and> pearsonr x y \<noteq> Inl UnboundLocalError"
  by (simp add: pearsonr_def Let_def)

text \<open>
  Claim C3: the search loop, started at \<open>i = 1\<close> as both entry points start it, returns
  after at least one and at most 255 passes through its body, whatever the samples and
  the regression line are, so that the two thresholds are bound afterwards and the
  search as a whole returns a threshold pair; and a pass in which the correlation raises
  \<^verbatim>\<open>ValueError\<close> ends the loop with the thresholds of that pass. The correlation \<open>pr\<close>
  is any function that raises no exception other than \<^verbatim>\<open>ValueError\<close>. (The bound counts
  passes with exact arithmetic on \<open>i\<close>; the last pass starts at
  \<open>i = 1 - 254 * 0.003921568627\<close>, which exceeds the step by more than \<open>10\<^sup>-\<^sup>1\<^sup>0\<close>.)
\<close>

theorem costes_search_terminates:
  assumes ok: "\<And>x y. pr x y \<noteq> Inl IndexError \<and> pr x y \<noteq> Inl UnboundLocalError"
  shows "(\<exists>st. costes_loop pr a b fi si 1 \<lparr>Thr_c = None, passes = 0\<rparr> = Inr st \<and>
            1 \<le> passes st \<and> passes st \<le> 255 \<and> Thr_c st \<noteq> None) \<and>
         (\<exists>t. costes_thresholds pr fi si = Inr t) \<and>
         (\<forall>i st. costes_step < i \<and>
            pr (np_select fi (map2 (\<lambda>f s. np_lt f (Fin i) \<or>
                    np_lt s (np_add (np_mul a (Fin i)) b)) fi si))
               (np_select si (map2 (\<lambda>f s. np_lt f (Fin i) \<or>
                    np_lt s (np_add (np_mul a (Fin i)) b)) fi si)) = Inl ValueError \<longrightarrow>
            costes_loop pr a b fi si i st =
              Inr \<lparr>Thr_c = Some (i, np_add (np_mul a (Fin i)) b), passes = Suc (passes st)\<rparr>)"
proof -
  have one: "costes_step < 1"
    by (simp add: costes_step_def)
  have run: "\<exists>st. costes_loop pr a' b' fi si 1 \<lparr>Thr_c = None, passes = 0\<rparr> = Inr st \<and>
            1 \<le> passes st \<and> passes st \<le> 255 \<and> Thr_c st \<noteq> None" for a' b'
    using costes_loop_bound [of pr a' b' fi si 1 "\<lparr>Thr_c = None, passes = 0\<rparr>", OF ok] one
    by (auto simp: costes_ceiling_one)
  have thr: "\<exists>t. costes_thresholds pr fi si = Inr t"
  proof -
    obtain a' b' where l: "costes_line fi si = (a', b')"
      by (cases "costes_line fi si")
    from run [of a' b'] l show ?thesis
      by (auto simp: costes_thresholds_def bind_err_def)
  qed
  from run [of a b] thr show ?thesis
    by (simp add: costes_loop_ValueError)
qed

theorem costes_search_terminates_witness:
  "(\<forall>x y. pearsonr x y \<noteq> Inl IndexError \<and> pearsonr x y \<noteq> Inl UnboundLocalError) \<and>
   costes_loop pearsonr (Fin 1) (Fin 0) [Fin (1/2)] [Fin (1/2)] 1 \<lparr>Thr_c = None, passes = 0\<rparr> =
     Inr \<lparr>Thr_c = Some (1, Fin 1), passes = 1\<rparr>"
proof -
  have ok: "\<And>x y. pearsonr x y \<noteq> Inl IndexError \<and> pearsonr x y \<noteq> Inl UnboundLocalError"
    by (rule pearsonr_raises_only_ValueError)
  have one: "costes_step < 1"
    by (simp add: costes_step_def)
  from costes_search_terminates [of pearsonr "Fin 1" "Fin 0" "[Fin (1/2)]" "[Fin (1/2)]", OF ok]
  have "costes_step < 1 \<and>
        pearsonr (np_select [Fin (1/2)] (map2 (\<lambda>f s. np_lt f (Fin 1) \<or>
                    np_lt s (np_add (np_mul (Fin 1) (Fin 1)) (Fin 0))) [Fin (1/2)] [Fin (1/2)]))
               (np_select [Fin (1/2)] (map2 (\<lambda>f s. np_lt f (Fin 1) \<or>
                    np_lt s (np_add (np_mul (Fin 1) (Fin 1)) (Fin 0))) [Fin (1/2)] [Fin (1/2)])) = Inl ValueError \<longrightarrow>
        costes_loop pearsonr (Fin 1) (Fin 0) [Fin (1/2)] [Fin (1/2)] 1 \<lparr>Thr_c = None, passes = 0\<rparr> =
          Inr \<lparr>Thr_c = Some (1, np_add (np_mul (Fin 1) (Fin 1)) (Fin 0)), passes = Suc (passes \<lparr>Thr_c = None, passes = 0\<rparr>)\<rparr>"
    by blast
  with one ok show ?thesis
    by (simp add: pearsonr_def np_select_def)
qed

subsection \<open>A covariance estimate of zero\<close>

lemma costes_slope_core:
  "np_div (np_add (np_sub y x)
             (np_sqrt (np_add (np_mul (np_sub y x) (np_sub y x))
                              (np_mul (Fin 4) (np_mul (Fin 0) (Fin 0))))))
          (np_mul (Fin 2) (Fin 0)) \<in> {NaN, PInf}"
  by (cases x; cases y) (auto simp: np_sub_def inf_of_sign_def)

text \<open>
  Claim C4, as the source has it: there is no test of the covariance estimate. When it
  is zero the slope \<open>a = num / (2 * covar)\<close> is a division by zero, NaN or \<open>+inf\<close>,
  and the loop runs with that slope as with any other: when the correlation of the
  pixels below the first thresholds is positive, the first pass is followed by the pass
  at \<open>i = 1 - 0.003921568627\<close>.
\<close>

theorem costes_zero_covariance_unguarded:
  assumes cov: "costes_covar fi si = Fin 0" and line: "costes_line fi si = (a, b)"
  shows "(a = NaN \<or> a = PInf) \<and>
         (\<forall>r st.
            pr (np_select fi (map2 (\<lambda>f s. np_lt f (Fin 1) \<or>
                    np_lt s (np_add (np_mul a (Fin 1)) b)) fi si))
               (np_select si (map2 (\<lambda>f s. np_lt f (Fin 1) \<or>
                    np_lt s (np_add (np_mul a (Fin 1)) b)) fi si)) = Inr r \<and>
            \<not> np_le r (Fin 0) \<longrightarrow>
            costes_loop pr a b fi si 1 st =
              costes_loop pr a b fi si (1 - costes_step)
                \<lparr>Thr_c = Some (1, np_add (np_mul a (Fin 1)) b), passes = Suc (passes st)\<rparr>)"
proof -
  have one: "costes_step < 1"
    by (simp add: costes_step_def)
  have "a = NaN \<or> a = PInf"
    using line costes_slope_core [of "np_var1 (np_select si (costes_nonZero fi si))"
        "np_var1 (np_select fi (costes_nonZero fi si))"]
    by (auto simp: costes_line_def Let_def cov)
  then show ?thesis
    using one by (auto simp: costes_loop_continue)
qed


lemma two_level_covar:
  "costes_covar [Fin (1/2), Fin (1/2), Fin 0, Fin 0] [Fin (1/2), Fin (1/2), Fin 0, Fin 0] = Fin 0"
  by (simp add: costes_covar_def costes_nonZero_def np_gt_def np_select_def np_var1_def
      np_mean_def np_sub_def Let_def)

lemma two_level_line:
  "costes_line [Fin (1/2), Fin (1/2), Fin 0, Fin 0] [Fin (1/2), Fin (1/2), Fin 0, Fin 0] = (NaN, NaN)"
  by (simp add: costes_line_def two_level_covar costes_nonZero_def np_gt_def np_select_def np_var1_def
      np_mean_def np_sub_def Let_def)

lemma two_level_pearsonr:
  "pearsonr [Fin (1/2), Fin (1/2), Fin 0, Fin 0] [Fin (1/2), Fin (1/2), Fin 0, Fin 0] = Inr (Fin 1)"
  by (simp add: pearsonr_def np_mean_def np_sub_def Let_def np_clip_def real_sqrt_divide)

theorem costes_zero_covariance_unguarded_witness:
  "costes_covar [Fin (1/2), Fin (1/2), Fin 0, Fin 0] [Fin (1/2), Fin (1/2), Fin 0, Fin 0] = Fin 0 \<and>
   costes_line [Fin (1/2), Fin (1/2), Fin 0, Fin 0] [Fin (1/2), Fin (1/2), Fin 0, Fin 0] = (NaN, NaN) \<and>
   costes_loop pearsonr NaN NaN [Fin (1/2), Fin (1/2), Fin 0, Fin 0]
       [Fin (1/2), Fin (1/2), Fin 0, Fin 0] 1 \<lparr>Thr_c = None, passes = 0\<rparr> =
     costes_loop pearsonr NaN NaN [Fin (1/2), Fin (1/2), Fin 0, Fin 0]
       [Fin (1/2), Fin (1/2), Fin 0, Fin 0] (1 - costes_step)
       \<lparr>Thr_c = Some (1, NaN), passes = 1\<rparr>"
  using costes_zero_covariance_unguarded [OF two_level_covar two_level_line, of pearsonr]
    two_level_pearsonr
  by (simp add: two_level_covar two_level_line np_select_def np_le_def)

text \<open>
  Claim C4 as the specification words it, an immediate end of the search at \<open>i = 1\<close>,
  fails for two identical images with the two intensity levels \<open>1/2\<close> and \<open>0\<close>: the
  covariance estimate is zero, the correlation of the pixels below \<open>1\<close> is \<open>1\<close>, and
  the threshold of the first image that the search returns is not \<open>1\<close>.
\<close>

theorem costes_zero_covariance_continues:
  "costes_covar [Fin (1/2), Fin (1/2), Fin 0, Fin 0] [Fin (1/2), Fin (1/2), Fin 0, Fin 0] = Fin 0 \<and>
   map_sum id fst
     (costes_thresholds pearsonr [Fin (1/2), Fin (1/2), Fin 0, Fin 0]
        [Fin (1/2), Fin (1/2), Fin 0, Fin 0]) \<noteq> Inr 1"
proof -
  let ?F = "[Fin (1/2), Fin (1/2), Fin 0, Fin 0]"
  let ?st = "\<lparr>Thr_c = Some (1, NaN), passes = 1\<rparr>"
  have one: "costes_step < 1" and two: "costes_step < 1 - costes_step"
    by (simp_all add: costes_step_def)
  have first: "costes_loop pearsonr NaN NaN ?F ?F 1 \<lparr>Thr_c = None, passes = 0\<rparr> =
      costes_loop pearsonr NaN NaN ?F ?F (1 - costes_step) ?st"
    using two_level_pearsonr
    by (subst costes_loop_continue [OF one, of _ _ _ _ _ "Fin 1"])
       (simp_all add: np_select_def np_le_def)
  obtain st' j t where r: "costes_loop pearsonr NaN NaN ?F ?F (1 - costes_step) ?st = Inr st'"
    and thr: "Thr_c st' = Some (j, t)" and le: "j \<le> 1 - costes_step"
    using costes_loop_bound [of pearsonr NaN NaN ?F ?F "1 - costes_step" ?st,
        OF pearsonr_raises_only_ValueError] two
    by blast
  have "j \<noteq> 1"
    using le costes_step_pos by simp
  with first r thr show ?thesis
    by (simp add: costes_thresholds_def two_level_line two_level_covar bind_err_def)
qed


subsection \<open>Strict and non-strict thresholds\<close>








subsection \<open>Dense ranks\<close>

lemma np_lt_order_key:
  "\<not> isnan v \<Longrightarrow> \<not> isnan w \<Longrightarrow> np_lt v w = (order_key v < order_key w)"
  by (cases v; cases w) auto

lemma np_ne_order_key:
  "\<not> isnan v \<Longrightarrow> \<not> isnan w \<Longrightarrow> np_ne v w = (order_key v \<noteq> order_key w)"
  by (cases v; cases w) (auto simp: np_ne_def)

lemma order_key_inj:
  "\<not> isnan v \<Longrightarrow> \<not> isnan w \<Longrightarrow> (order_key v = order_key w) = (v = w)"
  by (cases v; cases w) auto

lemma cumsum_from_shift: "cumsum_from acc bs = map (\<lambda>r. r + acc) (cumsum_from 0 bs)"
proof (induction bs arbitrary: acc)
  case Nil
  show ?case by simp
next
  case (Cons b bs)
  have "cumsum_from (acc + (if b then 1 else 0)) bs =
        map (\<lambda>r. r + acc) (cumsum_from (if b then 1 else 0) bs)"
    using Cons.IH [of "acc + (if b then 1 else 0)"] Cons.IH [of "if b then 1 else 0"]
    by (simp add: add.commute add.left_commute)
  then show ?case by simp
qed

lemma length_cumsum_from [simp]: "length (cumsum_from acc bs) = length bs"
  by (induction bs arbitrary: acc) simp_all

lemma cumsum_from_nonneg: "0 \<le> acc \<Longrightarrow> r \<in> set (cumsum_from acc bs) \<Longrightarrow> 0 \<le> r"
proof (induction bs arbitrary: acc)
  case Nil
  then show ?case by simp
next
  case (Cons b bs)
  let ?acc = "acc + (if b then 1 else 0)"
  have "0 \<le> ?acc" using Cons.prems(1) by simp
  moreover have "r = ?acc \<or> r \<in> set (cumsum_from ?acc bs)"
    using Cons.prems(2) by simp
  ultimately show ?case using Cons.IH [of ?acc] by blast
qed

lemma adjacent_Cons:
  "map2 f (butlast (a # b # r)) (tl (a # b # r)) = f a b # map2 f (butlast (b # r)) (tl (b # r))"
  by simp

lemma dense_ranks_sorted:
  assumes "sorted (map order_key zs)" and "\<forall>v \<in> set zs. \<not> isnan v" and "k < length zs"
  shows "np_cumsum (False # map2 np_ne (butlast zs) (tl zs)) ! k =
         int (card {v \<in> set zs. np_lt v (zs ! k)})"
  using assms
proof (induction zs arbitrary: k)
  case Nil
  then show ?case by simp
next
  case (Cons z1 zs')
  have nn: "\<not> isnan z1" "\<forall>v \<in> set zs'. \<not> isnan v"
    using Cons.prems(2) by auto
  have low: "\<forall>v \<in> set zs'. order_key z1 \<le> order_key v"
    using Cons.prems(1) by auto
  show ?case
  proof (cases k)
    case 0
    have "{v \<in> set (z1 # zs'). np_lt v z1} = {}"
      using low nn by (auto simp: np_lt_order_key)
    with 0 show ?thesis by (simp add: np_cumsum_def)
  next
    case (Suc k')
    then have k': "k' < length zs'" using Cons.prems(3) by simp
    then obtain z2 rest where zs': "zs' = z2 # rest" by (cases zs') auto
    let ?b = "if np_ne z1 z2 then 1 else (0::int)"
    have srt: "sorted (map order_key zs')" using Cons.prems(1) by simp
    have ih: "np_cumsum (False # map2 np_ne (butlast zs') (tl zs')) ! k' =
              int (card {v \<in> set zs'. np_lt v (zs' ! k')})"
      using Cons.IH [OF srt nn(2) k'] .
    have "cumsum_from 0 (np_ne z1 z2 # map2 np_ne (butlast zs') (tl zs')) =
          map (\<lambda>r. r + ?b) (cumsum_from 0 (False # map2 np_ne (butlast zs') (tl zs')))"
      using cumsum_from_shift [of ?b "map2 np_ne (butlast zs') (tl zs')"] by simp
    moreover have "np_cumsum (False # map2 np_ne (butlast (z1 # zs')) (tl (z1 # zs'))) =
        0 # cumsum_from 0 (np_ne z1 z2 # map2 np_ne (butlast zs') (tl zs'))"
      unfolding zs' adjacent_Cons np_cumsum_def by simp
    moreover have "k' < length (cumsum_from 0 (False # map2 np_ne (butlast zs') (tl zs')))"
      using k' by simp
    ultimately have step: "np_cumsum (False # map2 np_ne (butlast (z1 # zs')) (tl (z1 # zs'))) ! k =
        np_cumsum (False # map2 np_ne (butlast zs') (tl zs')) ! k' + ?b"
      unfolding Suc np_cumsum_def by (simp only: nth_Cons_Suc nth_map)
    have fin: "finite {v \<in> set zs'. np_lt v (zs' ! k')}" by simp
    have mem: "zs' ! k' \<in> set zs'" using k' by simp
    have z2: "z2 \<in> set zs'" using zs' by simp
    show ?thesis
    proof (cases "np_ne z1 z2")
      case False
      then have "z1 = z2"
        using nn z2 by (simp add: np_ne_order_key order_key_inj)
      then have "{v \<in> set (z1 # zs'). np_lt v ((z1 # zs') ! k)} =
                 {v \<in> set zs'. np_lt v (zs' ! k')}"
        using Suc z2 by auto
      with step ih False show ?thesis by simp
    next
      case True
      then have ne: "order_key z1 \<noteq> order_key z2"
        using nn z2 by (simp add: np_ne_order_key)
      have "order_key z1 \<le> order_key z2"
        using low z2 by blast
      with ne have "order_key z1 < order_key z2"
        by (simp add: less_le)
      moreover have "\<forall>v \<in> set zs'. order_key z2 \<le> order_key v"
        using srt unfolding zs' by auto
      ultimately have above: "\<forall>v \<in> set zs'. order_key z1 < order_key v"
        by (blast intro: less_le_trans)
      then have lt: "order_key z1 < order_key (zs' ! k')"
        using mem by blast
      have "z1 \<notin> set zs'"
        using above by auto
      moreover have "np_lt z1 (zs' ! k')"
        using lt nn mem by (simp add: np_lt_order_key)
      ultimately have "{v \<in> set (z1 # zs'). np_lt v ((z1 # zs') ! k)} =
                 insert z1 {v \<in> set zs'. np_lt v (zs' ! k')}"
        and "z1 \<notin> {v \<in> set zs'. np_lt v (zs' ! k')}"
        using Suc by auto
      with step ih True fin show ?thesis by simp
    qed
  qed
qed


lemma length_np_put [simp]: "length (np_put zs idx vals) = length zs"
proof -
  have "length (fold (\<lambda>(i, v) a. a[i := v]) ps zs) = length zs" for ps :: "(nat \<times> int) list"
    by (induction ps arbitrary: zs) auto
  then show ?thesis by (simp add: np_put_def)
qed

lemma np_put_Cons:
  "np_put zs (i # idx) (v # vals) = np_put (zs[i := v]) idx vals"
  by (simp add: np_put_def)

lemma np_put_other: "i \<notin> set idx \<Longrightarrow> np_put zs idx vals ! i = zs ! i"
proof (induction idx arbitrary: zs vals)
  case Nil
  show ?case by (simp add: np_put_def)
next
  case (Cons j idx)
  show ?case
  proof (cases vals)
    case Nil
    then show ?thesis by (simp add: np_put_def)
  next
    case (Cons v vals')
    with Cons.prems Cons.IH [of "zs[j := v]" vals'] show ?thesis
      by (simp add: np_put_Cons)
  qed
qed

lemma np_put_nth:
  assumes "distinct idx" and "length vals = length idx" and "\<forall>i \<in> set idx. i < length zs"
    and "k < length idx"
  shows "np_put zs idx vals ! (idx ! k) = vals ! k"
  using assms
proof (induction idx arbitrary: zs vals k)
  case Nil
  then show ?case by simp
next
  case (Cons j idx)
  then obtain v vals' where vals: "vals = v # vals'"
    by (cases vals) auto
  show ?case
  proof (cases k)
    case 0
    have "j \<notin> set idx" using Cons.prems(1) by simp
    then have "np_put (zs[j := v]) idx vals' ! j = zs[j := v] ! j"
      by (rule np_put_other)
    with 0 vals Cons.prems(3) show ?thesis
      by (simp add: np_put_Cons)
  next
    case (Suc k')
    have "np_put (zs[j := v]) idx vals' ! (idx ! k') = vals' ! k'"
      using Cons.prems vals Suc by (intro Cons.IH) auto
    with Suc vals show ?thesis
      by (simp add: np_put_Cons)
  qed
qed

lemma np_put_nonneg:
  assumes "\<forall>z \<in> set zs. 0 \<le> z" and "\<forall>v \<in> set vals. 0 \<le> v"
  shows "\<forall>r \<in> set (np_put zs idx vals). 0 \<le> r"
  using assms
proof (induction idx arbitrary: zs vals)
  case Nil
  then show ?case by (simp add: np_put_def)
next
  case (Cons j idx)
  show ?case
  proof (cases vals)
    case Nil
    with Cons.prems show ?thesis by (simp add: np_put_def)
  next
    case (Cons v vals')
    have "\<forall>z \<in> set (zs[j := v]). 0 \<le> z"
      using Cons.prems Cons by (auto dest!: set_update_subset_insert [THEN subsetD])
    moreover have "\<forall>v \<in> set vals'. 0 \<le> v"
      using Cons.prems Cons by simp
    ultimately show ?thesis
      using Cons.IH [of "zs[j := v]" vals'] Cons by (simp add: np_put_Cons)
  qed
qed

lemma rank_U_map:
  "rank_U xs idx = False # map2 np_ne (butlast (map ((!) xs) idx)) (tl (map ((!) xs) idx))"
proof -
  have b: "butlast (map ((!) xs) idx) = map ((!) xs) (butlast idx)"
    by (rule map_butlast [symmetric])
  have t: "tl (map ((!) xs) idx) = map ((!) xs) (tl idx)"
    by (rule map_tl [symmetric])
  show ?thesis
    unfolding rank_U_def b t by (simp add: zip_map_map case_prod_unfold)
qed

lemma length_rank_U: "idx \<noteq> [] \<Longrightarrow> length (rank_U xs idx) = length idx"
  by (simp add: rank_U_def)

lemma length_rank_im [simp]: "length (rank_im xs idx) = length xs"
  by (simp add: rank_im_def)

lemma rank_im_nonneg: "r \<in> set (rank_im xs idx) \<Longrightarrow> 0 \<le> r"
proof -
  have "\<forall>v \<in> set (np_cumsum (rank_U xs idx)). 0 \<le> v"
    using cumsum_from_nonneg [of 0 _ "rank_U xs idx"] by (auto simp: np_cumsum_def)
  then have "\<forall>r \<in> set (rank_im xs idx). 0 \<le> r"
    unfolding rank_im_def by (intro np_put_nonneg) auto
  then show "r \<in> set (rank_im xs idx) \<Longrightarrow> 0 \<le> r" by blast
qed

lemma rank_im_dense:
  assumes dist: "distinct idx" and set_idx: "set idx = {0..<length xs}"
    and srt: "sorted (map (\<lambda>i. order_key (xs ! i)) idx)"
    and nn: "\<forall>v \<in> set xs. \<not> isnan v" and i: "i < length xs"
  shows "rank_im xs idx ! i = int (card {v \<in> set xs. np_lt v (xs ! i)})"
proof -
  let ?ys = "map ((!) xs) idx"
  have len: "length idx = length xs"
    using dist set_idx by (metis card_atLeastLessThan diff_zero distinct_card)
  from i set_idx obtain k where k: "k < length idx" "idx ! k = i"
    by (metis atLeastLessThan_iff in_set_conv_nth zero_le)
  have ne: "idx \<noteq> []" using k by auto
  have set_ys: "set ?ys = set xs"
    using set_idx nth_image [of "length xs" xs] by simp
  have "sorted (map order_key ?ys)"
    using srt by (simp add: comp_def)
  moreover have "\<forall>v \<in> set ?ys. \<not> isnan v"
    using nn set_ys by blast
  moreover have "k < length ?ys" using k by simp
  ultimately have d: "np_cumsum (False # map2 np_ne (butlast ?ys) (tl ?ys)) ! k =
      int (card {v \<in> set ?ys. np_lt v (?ys ! k)})"
    by (rule dense_ranks_sorted)
  have "rank_im xs idx ! (idx ! k) = np_cumsum (rank_U xs idx) ! k"
    unfolding rank_im_def
    using dist k set_idx ne by (intro np_put_nth) (auto simp: np_cumsum_def length_rank_U)
  with d k set_ys show ?thesis
    by (simp add: rank_U_map)
qed

lemma lexsort1_perm: "distinct (lexsort1 xs) \<and> set (lexsort1 xs) = {0..<length xs}"
  by (simp add: lexsort1_def)

lemma lexsort1_sorted: "sorted (map (\<lambda>i. order_key (xs ! i)) (lexsort1 xs))"
  by (simp add: lexsort1_def)



text \<open>
  Claim C7: the rank array computed for the RWC coefficient of a whole image pair holds
  dense ranks. For every array without NaN (the validity mask removes NaN before the
  ranks are taken), the rank at each position is the number of distinct values of the
  array that are strictly smaller than the value at that position, so that equal values
  share a rank and the next distinct value has the next rank; and the ranks of
  \<open>[3, 1, 1, 2]\<close> are \<open>[2, 0, 0, 1]\<close>.
\<close>

theorem rank_is_dense:
  assumes "\<forall>v \<in> set xs. \<not> isnan v" and "i < length xs"
  shows "rank_im xs (lexsort1 xs) ! i = int (card {v \<in> set xs. np_lt v (xs ! i)}) \<and>
         rank_im [Fin 3, Fin 1, Fin 1, Fin 2] (lexsort1 [Fin 3, Fin 1, Fin 1, Fin 2]) =
           [2, 0, 0, 1]"
proof -
  have "rank_im xs (lexsort1 xs) ! i = int (card {v \<in> set xs. np_lt v (xs ! i)})"
    using lexsort1_perm [of xs] lexsort1_sorted [of xs] assms
    by (intro rank_im_dense) simp_all
  moreover have
    "rank_im [Fin 3, Fin 1, Fin 1, Fin 2] (lexsort1 [Fin 3, Fin 1, Fin 1, Fin 2]) = [2, 0, 0, 1]"
    by (simp add: rank_im_def lexsort1_def np_put_def np_cumsum_def rank_U_def np_ne_def upt_rec)
  ultimately show ?thesis by simp
qed

theorem rank_is_dense_witness:
  "card {v \<in> set [Fin 3, Fin 1, Fin 1, Fin 2]. np_lt v ([Fin 3, Fin 1, Fin 1, Fin 2] ! 3)} = 1"
proof -
  let ?X = "[Fin 3, Fin 1, Fin 1, Fin 2]"
  have h: "\<forall>v \<in> set ?X. \<not> isnan v" "3 < length ?X"
    by simp_all
  from rank_is_dense [OF h]
  have a: "rank_im ?X (lexsort1 ?X) ! 3 = int (card {v \<in> set ?X. np_lt v (?X ! 3)})"
    and b: "rank_im ?X (lexsort1 ?X) = [2, 0, 0, 1]"
    by blast+
  from a have "int (card {v \<in> set ?X. np_lt v (?X ! 3)}) = 1"
    unfolding b by simp
  then show ?thesis by linarith
qed


subsection \<open>Ranks and weights in the per-object RWC coefficient\<close>

lemma int_amax_Max: "xs \<noteq> [] \<Longrightarrow> int_amax xs = Inr (Max (set xs))"
proof (cases xs)
  case Nil
  assume "xs \<noteq> []"
  with Nil show ?thesis by simp
next
  case (Cons a list)
  then show ?thesis
    using Max.set_eq_fold [of a list] by simp
qed








subsection \<open>Costes' thresholds in per-object mode\<close>


lemma length_nd_sum [simp]: "length (nd_sum input labels index) = length index"
  by (simp add: nd_sum_def)






subsection \<open>Identical images\<close>

lemma np_sum_Fin: "np_sum (map Fin rs) = Fin (sum_list rs)"
  by (induction rs) simp_all

lemma np_mean_Fin: "rs \<noteq> [] \<Longrightarrow> np_mean (map Fin rs) = Fin (sum_list rs / real (length rs))"
  by (simp add: np_mean_def np_sum_Fin)

lemma map2_same: "map2 f xs xs = map (\<lambda>x. f x x) xs"
  by (induction xs) simp_all

lemma sum_list_squares_pos:
  assumes "x \<in> set xs" and "f x \<noteq> (0::real)"
  shows "0 < sum_list (map (\<lambda>x. f x * f x) xs)"
  using assms
proof (induction xs)
  case Nil
  then show ?case by simp
next
  case (Cons y ys)
  have nonneg: "0 \<le> sum_list (map (\<lambda>x. f x * f x) ys)"
    by (rule sum_list_nonneg) auto
  show ?case
  proof (cases "x = y")
    case True
    with Cons.prems have "0 < f y * f y"
      by (simp add: zero_less_mult_iff less_le not_le)
    with nonneg show ?thesis by simp
  next
    case False
    with Cons have "0 < sum_list (map (\<lambda>x. f x * f x) ys)" by simp
    moreover have "0 \<le> f y * f y" by simp
    ultimately show ?thesis by (simp add: add_nonneg_pos)
  qed
qed

lemma not_constant_deviates:
  assumes "x \<in> set rs" and "y \<in> set rs" and "x \<noteq> (y::real)"
  shows "\<exists>z \<in> set rs. z - m \<noteq> 0"
  using assms by (cases "x = m") auto

lemma sum_list_pos_all:
  "xs \<noteq> [] \<Longrightarrow> \<forall>x \<in> set xs. (0::real) < x \<Longrightarrow> 0 < sum_list xs"
proof (induction xs)
  case Nil
  then show ?case by simp
next
  case (Cons y ys)
  then have "0 \<le> sum_list ys"
    by (intro sum_list_nonneg) (auto intro: less_imp_le)
  with Cons.prems show ?case by simp
qed

lemma div_sqrt_twice: "0 < v \<Longrightarrow> v / sqrt v / sqrt v = (1::real)"
proof -
  assume v: "0 < v"
  then have "v / sqrt v = sqrt v"
    by (simp add: real_div_sqrt)
  moreover have "sqrt v \<noteq> 0" using v by simp
  ultimately show ?thesis by simp
qed

lemma corrcoef10_identical:
  assumes x: "x \<in> set rs" and y: "y \<in> set rs" and xy: "x \<noteq> y"
  shows "corrcoef10 (map Fin rs) (map Fin rs) = Fin 1"
proof -
  let ?n = "length rs"
  let ?m = "sum_list rs / real ?n"
  let ?S = "sum_list (map (\<lambda>r. (r - ?m) * (r - ?m)) rs)"
  have ne: "rs \<noteq> []" using x by auto
  have "rs \<noteq> [x]" using y xy by auto
  have n2: "2 \<le> ?n"
  proof (cases rs)
    case Nil
    with ne show ?thesis by simp
  next
    case (Cons a as)
    with x y xy have "as \<noteq> []" by auto
    with Cons show ?thesis by (cases as) simp_all
  qed
  obtain z where z: "z \<in> set rs" "z - ?m \<noteq> 0"
    using not_constant_deviates [OF x y xy] by blast
  have S: "0 < ?S"
    using sum_list_squares_pos [of z rs "\<lambda>r. r - ?m"] z by simp
  have fact: "0 < real (?n - 1)" using n2 by simp
  define v where "v = ?S * (1 / real (?n - 1))"
  have v: "0 < v" using S fact by (simp add: v_def)
  have cov: "np_cov (map Fin rs) (map Fin rs) = Fin v"
    using fact by (simp add: v_def np_cov_def np_mean_Fin [OF ne] Let_def map2_same np_sub_def
        o_def np_sum_Fin [of "map f rs" for f, simplified map_map o_def])
  show ?thesis
    using v div_sqrt_twice [OF v] by (simp add: corrcoef10_def cov Let_def np_clip_def)
qed


lemma lstsq_slope_identical:
  assumes x: "x \<in> set rs" and y: "y \<in> set rs" and xy: "x \<noteq> y"
  shows "lstsq_slope (map Fin rs) (map Fin rs) = Inr (Fin 1)"
proof -
  let ?m = "sum_list rs / real (length rs)"
  obtain z where z: "z \<in> set rs" "z - ?m \<noteq> 0"
    using not_constant_deviates [OF x y xy] by blast
  have S: "0 < sum_list (map (\<lambda>r. (r - ?m) * (r - ?m)) rs)"
    using sum_list_squares_pos [of z rs "\<lambda>r. r - ?m"] z by simp
  have fin: "list_all isfinite (map Fin rs)"
    by (simp add: list_all_iff)
  have id: "the_fin \<circ> Fin = id"
    by (rule ext) simp
  show ?thesis
    using S by (simp add: lstsq_slope_def fin id Let_def map2_same)
qed

lemma fold_np_max2_Fin: "fold np_max2 (map Fin rs) (Fin r) = Fin (fold max rs r)"
proof (induction rs arbitrary: r)
  case Nil
  show ?case by simp
next
  case (Cons a rs)
  have "np_max2 (Fin a) (Fin r) = Fin (max a r)"
    by (simp add: np_max2_def max_def)
  with Cons.IH [of "max a r"] show ?case by simp
qed

lemma np_amax_Fin: "rs \<noteq> [] \<Longrightarrow> np_amax (map Fin rs) = Inr (Fin (Max (set rs)))"
proof (cases rs)
  case Nil
  assume "rs \<noteq> []"
  with Nil show ?thesis by simp
next
  case (Cons a as)
  then show ?thesis
    using Max.set_eq_fold [of a as] by (simp add: fold_np_max2_Fin)
qed

lemma np_select_map_filter: "np_select (map f rs) (map P rs) = map f (filter P rs)"
  by (induction rs) (simp_all add: np_select_def)

lemma np_select_map2:
  "length xs = length ys \<Longrightarrow>
   map2 f (np_select xs msk) (np_select ys msk) = np_select (map2 f xs ys) msk"
proof (induction xs ys arbitrary: msk rule: list_induct2)
  case Nil
  show ?case by (simp add: np_select_def)
next
  case (Cons x xs y ys)
  show ?case
  proof (cases msk)
    case Nil
    then show ?thesis by (simp add: np_select_def)
  next
    case (Cons b bs)
    with Cons.IH [of bs] show ?thesis
      by (simp add: np_select_def)
  qed
qed

lemma thresh_images_identical:
  assumes ne: "rs \<noteq> []" and pos: "0 < Max (set rs)" and p: "0 \<le> p" "p < 100"
  shows "filter (\<lambda>r. p * Max (set rs) / 100 < r) rs \<noteq> []"
    and "\<forall>r \<in> set (filter (\<lambda>r. p * Max (set rs) / 100 < r) rs). 0 < r"
    and "thresh_images p (map Fin rs) (map Fin rs) =
           Inr \<lparr>thr_fi = Fin (p * Max (set rs) / 100), thr_si = Fin (p * Max (set rs) / 100),
                combined_thresh = map (\<lambda>r. p * Max (set rs) / 100 < r) rs,
                fi_thresh = map Fin (filter (\<lambda>r. p * Max (set rs) / 100 < r) rs),
                si_thresh = map Fin (filter (\<lambda>r. p * Max (set rs) / 100 < r) rs),
                tot_fi_thr = Fin (sum_list (filter (\<lambda>r. p * Max (set rs) / 100 < r) rs)),
                tot_si_thr = Fin (sum_list (filter (\<lambda>r. p * Max (set rs) / 100 < r) rs))\<rparr>"
proof -
  let ?M = "Max (set rs)"
  let ?t = "p * ?M / 100"
  let ?sel = "filter (\<lambda>r. ?t < r) rs"
  have t0: "0 \<le> ?t" using pos p by simp
  have "p * ?M < 100 * ?M" using pos p by simp
  then have tM: "?t < ?M" by simp
  have "?M \<in> set rs" using ne by (intro Max_in) simp_all
  with tM have "?M \<in> set ?sel" by simp
  then show "?sel \<noteq> []" by (metis empty_iff list.set(1))
  show "\<forall>r \<in> set ?sel. 0 < r" using t0 by auto
  show "thresh_images p (map Fin rs) (map Fin rs) =
             Inr \<lparr>thr_fi = Fin ?t, thr_si = Fin ?t,
                  combined_thresh = map (\<lambda>r. ?t < r) rs,
                  fi_thresh = map Fin ?sel, si_thresh = map Fin ?sel,
                  tot_fi_thr = Fin (sum_list ?sel), tot_si_thr = Fin (sum_list ?sel)\<rparr>"
    unfolding thresh_images_def np_amax_Fin [OF ne] bind_err_def
    by (simp add: Let_def map2_same np_select_map_filter np_sum_Fin np_gt_def o_def)
qed


lemma map2_mul_ones: "map2 np_mul (map Fin rs) (replicate (length rs) (Fin 1)) = map Fin rs"
  by (induction rs) simp_all

lemma rwc_weight_same:
  assumes ne: "R1 \<noteq> []" and nonneg: "\<forall>r \<in> set R1. 0 \<le> r"
  shows "rwc_weight R1 R1 = Inr (replicate (length R1) (Fin 1))"
proof -
  have "Max (set R1) \<in> set R1"
    using ne by (intro Max_in) simp_all
  with nonneg have m: "0 \<le> Max (set R1)" by blast
  show ?thesis
    using ne m
    by (simp add: rwc_weight_def int_amax_Max bind_err_def Let_def map2_same o_def
        map_replicate_const)
qed

lemma manders_overlap_rwc_identical:
  assumes sel: "sel = filter P rs" and ne: "sel \<noteq> []" and pos: "\<forall>r \<in> set sel. 0 < r"
    and t: "t = \<lparr>thr_fi = a, thr_si = b, combined_thresh = map P rs,
                  fi_thresh = map Fin sel, si_thresh = map Fin sel,
                  tot_fi_thr = Fin (sum_list sel), tot_si_thr = Fin (sum_list sel)\<rparr>"
  shows "manders_images t = (Fin 1, Fin 1) \<and> overlap_images t = (Fin 1, Fin 1, Fin 1) \<and>
         rwc_images (map Fin rs) (map Fin rs) t = Inr (Fin 1, Fin 1)"
proof -
  have s: "0 < sum_list sel"
    using ne pos by (rule sum_list_pos_all)
  have q: "0 < sum_list (map (\<lambda>r. r * r) sel)"
    using ne pos by (intro sum_list_pos_all) auto
  have man: "manders_images t = (Fin 1, Fin 1)"
    using s by (simp add: manders_images_def t np_sum_Fin)
  have sq: "np_sum (map ((\<lambda>x. np_mul x x) \<circ> Fin) sel) = Fin (sum_list (map (\<lambda>r. r * r) sel))"
    by (induction sel) simp_all
  have ov: "overlap_images t = (Fin 1, Fin 1, Fin 1)"
    using q by (simp add: overlap_images_def t Let_def map2_same sq)
  have rne: "rs \<noteq> []" using ne sel by auto
  let ?R = "rank_im (map Fin rs) (lexsort1 (map Fin rs))"
  have "?R \<noteq> []"
    using rne by (metis length_rank_im length_map length_0_conv)
  moreover have "\<forall>r \<in> set ?R. 0 \<le> r"
    using rank_im_nonneg by blast
  ultimately have w: "rwc_weight ?R ?R = Inr (replicate (length rs) (Fin 1))"
    using rwc_weight_same [of ?R] by simp
  have "map2 np_mul (map Fin sel) (np_select (replicate (length rs) (Fin 1)) (map P rs)) =
        map Fin sel"
    using np_select_map2 [of "map Fin rs" "replicate (length rs) (Fin 1)" np_mul "map P rs"]
    by (simp add: sel map2_mul_ones np_select_map_filter)
  then have "rwc_images (map Fin rs) (map Fin rs) t = Inr (Fin 1, Fin 1)"
    using s by (simp add: rwc_images_def w bind_err_def Let_def t np_sum_Fin)
  with man ov show ?thesis by simp
qed

lemma valid_mask_all_true:
  "valid_mask (replicate (length rs) True) (replicate (length rs) True) (map Fin rs) (map Fin rs)
     = replicate (length rs) True"
  by (induction rs) (simp_all add: valid_mask_def)

lemma np_select_all_true: "np_select xs (replicate (length xs) True) = xs"
  by (induction xs) (simp_all add: np_select_def)

text \<open>
  Claim C8, as the source has it: for two identical images with finite intensities that
  are not all equal and whose maximum is positive, with masks true everywhere and a
  threshold percentage \<open>0 \<le> p < 100\<close>, the correlation, the slope, the overlap
  coefficient, \<open>K1\<close>, \<open>K2\<close>, the two Manders coefficients and the two RWC coefficients
  of \<^verbatim>\<open>run_image_pair_images\<close> are all \<open>1\<close> (in exact arithmetic).
\<close>

theorem identical_images_all_one:
  assumes x: "x \<in> set rs" and y: "y \<in> set rs" and xy: "x \<noteq> y"
    and pos: "0 < Max (set rs)" and p: "0 \<le> p" "p < 100"
  shows "corr_and_slope_images (map Fin rs) (map Fin rs) = Inr (Fin 1, Fin 1) \<and>
         (\<exists>t. thresh_images p (map Fin rs) (map Fin rs) = Inr t \<and>
            manders_images t = (Fin 1, Fin 1) \<and>
            overlap_images t = (Fin 1, Fin 1, Fin 1) \<and>
            rwc_images (map Fin rs) (map Fin rs) t = Inr (Fin 1, Fin 1)) \<and>
         run_image_pair_images
           \<lparr>thr = p, do_corr_and_slope = True, do_manders = True, do_rwc = True,
            do_overlap = True, do_costes = False\<rparr> pr a b
           (map Fin rs) (replicate (length rs) True) (map Fin rs) (replicate (length rs) True) =
         Inr (image_rows a b (Some (Fin 1, Fin 1)) (Some (Fin 1, Fin 1)) (Some (Fin 1, Fin 1))
                (Some (Fin 1, Fin 1, Fin 1)) None,
              image_measurements a b (Some (Fin 1, Fin 1)) (Some (Fin 1, Fin 1, Fin 1))
                (Some (Fin 1, Fin 1)) (Some (Fin 1, Fin 1)) None)"
proof -
  have ne: "rs \<noteq> []" using x by auto
  have cs: "corr_and_slope_images (map Fin rs) (map Fin rs) = Inr (Fin 1, Fin 1)"
    by (simp add: corr_and_slope_images_def corrcoef10_identical [OF x y xy]
        lstsq_slope_identical [OF x y xy] bind_err_def)
  obtain t where t: "thresh_images p (map Fin rs) (map Fin rs) = Inr t"
    and mor: "manders_images t = (Fin 1, Fin 1)" "overlap_images t = (Fin 1, Fin 1, Fin 1)"
      "rwc_images (map Fin rs) (map Fin rs) t = Inr (Fin 1, Fin 1)"
  proof -
    let ?P = "\<lambda>r. p * Max (set rs) / 100 < r"
    note th = thresh_images_identical [OF ne pos p]
    have ne': "filter ?P rs \<noteq> []" and pos': "\<forall>r \<in> set (filter ?P rs). 0 < r"
      using th(1,2) by simp_all
    note t = th(3)
    from manders_overlap_rwc_identical [OF refl ne' pos' refl] t that
    show ?thesis by blast
  qed
  have any: "np_any (replicate (length rs) True)"
    using ne by (simp add: np_any_def)
  have sel_all: "np_select (map Fin rs) (replicate (length rs) True) = map Fin rs"
    using np_select_all_true [of "map Fin rs"] by simp
  have run: "run_image_pair_images
           \<lparr>thr = p, do_corr_and_slope = True, do_manders = True, do_rwc = True,
            do_overlap = True, do_costes = False\<rparr> pr a b
           (map Fin rs) (replicate (length rs) True) (map Fin rs) (replicate (length rs) True) =
         Inr (image_rows a b (Some (Fin 1, Fin 1)) (Some (Fin 1, Fin 1)) (Some (Fin 1, Fin 1))
                (Some (Fin 1, Fin 1, Fin 1)) None,
              image_measurements a b (Some (Fin 1, Fin 1)) (Some (Fin 1, Fin 1, Fin 1))
                (Some (Fin 1, Fin 1)) (Some (Fin 1, Fin 1)) None)"
    unfolding run_image_pair_images_def valid_mask_all_true
    by (simp add: any sel_all Let_def opt_when_def bind_err_def cs t mor)
  from cs t mor run show ?thesis by blast
qed

theorem identical_images_all_one_witness:
  "run_image_pair_images
     \<lparr>thr = 15, do_corr_and_slope = True, do_manders = True, do_rwc = True,
      do_overlap = True, do_costes = False\<rparr> pearsonr ''A'' ''B''
     [Fin 1, Fin 2] [True, True] [Fin 1, Fin 2] [True, True] =
   Inr ([[Str ''A'', Str ''B'', Str ''-'', Str ''Correlation'', Fmt3 (Fin 1)],
         [Str ''A'', Str ''B'', Str ''-'', Str ''Slope'', Fmt3 (Fin 1)],
         [Str ''A'', Str ''B'', Str ''-'', Str ''Manders Coefficient'', Fmt3 (Fin 1)],
         [Str ''B'', Str ''A'', Str ''-'', Str ''Manders Coefficient'', Fmt3 (Fin 1)],
         [Str ''A'', Str ''B'', Str ''-'', Str ''RWC Coefficient'', Fmt3 (Fin 1)],
         [Str ''B'', Str ''A'', Str ''-'', Str ''RWC Coefficient'', Fmt3 (Fin 1)],
         [Str ''A'', Str ''B'', Str ''-'', Str ''Overlap Coefficient'', Fmt3 (Fin 1)]],
        [(''Correlation_Correlation_A_B'', Fin 1), (''Correlation_Slope_A_B'', Fin 1),
         (''Correlation_Overlap_A_B'', Fin 1), (''Correlation_K_A_B'', Fin 1),
         (''Correlation_K_B_A'', Fin 1), (''Correlation_Manders_A_B'', Fin 1),
         (''Correlation_Manders_B_A'', Fin 1), (''Correlation_RWC_A_B'', Fin 1),
         (''Correlation_RWC_B_A'', Fin 1)])"
  using identical_images_all_one [of 1 "[1, 2]" 2 15 pearsonr "''A''" "''B''"]
  by (simp add: image_rows_def image_measurements_def F_CORRELATION_FORMAT_def
      F_SLOPE_FORMAT_def F_OVERLAP_FORMAT_def F_K_FORMAT_def F_MANDERS_FORMAT_def
      F_RWC_FORMAT_def numeral_2_eq_2)

text \<open>
  Claim C8 as the specification words it, for every pair of identical images, fails for
  the constant image \<open>[1, 1]\<close>: the variance is zero, the correlation is \<open>0 / 0\<close>,
  and the least-squares system has rank one, with the slope \<open>1/2\<close> in its solution of
  minimal norm.
\<close>

theorem identical_constant_images_correlation_nan:
  "run_image_pair_images
     \<lparr>thr = 15, do_corr_and_slope = True, do_manders = True, do_rwc = True,
      do_overlap = True, do_costes = False\<rparr> pearsonr ''A'' ''B''
     [Fin 1, Fin 1] [True, True] [Fin 1, Fin 1] [True, True] =
   Inr ([[Str ''A'', Str ''B'', Str ''-'', Str ''Correlation'', Fmt3 NaN],
         [Str ''A'', Str ''B'', Str ''-'', Str ''Slope'', Fmt3 (Fin (1 / 2))],
         [Str ''A'', Str ''B'', Str ''-'', Str ''Manders Coefficient'', Fmt3 (Fin 1)],
         [Str ''B'', Str ''A'', Str ''-'', Str ''Manders Coefficient'', Fmt3 (Fin 1)],
         [Str ''A'', Str ''B'', Str ''-'', Str ''RWC Coefficient'', Fmt3 (Fin 1)],
         [Str ''B'', Str ''A'', Str ''-'', Str ''RWC Coefficient'', Fmt3 (Fin 1)],
         [Str ''A'', Str ''B'', Str ''-'', Str ''Overlap Coefficient'', Fmt3 (Fin 1)]],
        [(''Correlation_Correlation_A_B'', NaN), (''Correlation_Slope_A_B'', Fin (1 / 2)),
         (''Correlation_Overlap_A_B'', Fin 1), (''Correlation_K_A_B'', Fin 1),
         (''Correlation_K_B_A'', Fin 1), (''Correlation_Manders_A_B'', Fin 1),
         (''Correlation_Manders_B_A'', Fin 1), (''Correlation_RWC_A_B'', Fin 1),
         (''Correlation_RWC_B_A'', Fin 1)])"
  by (simp add: Let_def run_image_pair_images_def valid_mask_def np_any_def np_select_def
      opt_when_def bind_err_def corr_and_slope_images_def corrcoef10_def np_cov_def
      np_mean_def np_sub_def np_clip_def lstsq_slope_def thresh_images_def np_max2_def
      np_gt_def manders_images_def overlap_images_def rwc_images_def rank_im_def
      lexsort1_def np_put_def np_cumsum_def rank_U_def np_ne_def upt_rec rwc_weight_def
      image_measurements_def image_rows_def F_CORRELATION_FORMAT_def F_SLOPE_FORMAT_def
      F_OVERLAP_FORMAT_def F_K_FORMAT_def F_MANDERS_FORMAT_def F_RWC_FORMAT_def)

subsection \<open>No object, or no valid pixel\<close>

lemma filter_id_np_any: "(filter id msk = []) = (\<not> np_any msk)"
  by (induction msk) (auto simp: np_any_def)

lemma object_measurements_all_vectors:
  "m \<in> set (object_measurements_all S a b obj w) \<Longrightarrow> snd (snd m) = w"
  by (auto simp: object_measurements_all_def object_measurements_def split: if_splits)

text \<open>
  Claim C9, as the source has it: when the object count is \<open>0\<close>,
  \<^verbatim>\<open>run_image_pair_objects\<close> adds a vector of length \<open>0\<close> for every measurement that
  is switched on and returns the four rows whose value is the placeholder \<^verbatim>\<open>"-"\<close>;
  when there are objects and the validity mask of the image pair (lines 743-748, the
  mask that line 767 tests, for the case that the comment of line 754 names: both
  images completely masked out) has no true entry, every measurement added is the
  vector of \<open>n_objects\<close> NaN.
\<close>

theorem no_objects_or_no_valid_pixels:
  "(n_objects inp = 0 \<longrightarrow>
      run_image_pair_objects S pr a b obj inp =
        Inr (no_object_rows a b obj, object_measurements_all S a b obj []) \<and>
      (\<forall>m \<in> set (object_measurements_all S a b obj []). length (snd (snd m)) = 0) \<and>
      (\<forall>r \<in> set (no_object_rows a b obj). last r = Str ''-'')) \<and>
   (0 < n_objects inp \<and>
    \<not> np_any (valid_mask (first_mask inp) (second_mask inp)
                 (first_pixel_data inp) (second_pixel_data inp)) \<longrightarrow>
      run_image_pair_objects S pr a b obj inp =
        Inr ([], object_measurements_all S a b obj (replicate (n_objects inp) NaN)) \<and>
      (\<forall>m \<in> set (object_measurements_all S a b obj (replicate (n_objects inp) NaN)).
         snd (snd m) = replicate (n_objects inp) NaN))"
  by (auto simp: run_image_pair_objects_def Let_def filter_id_np_any np_zeros_def
      no_object_rows_def dest: object_measurements_all_vectors)

theorem no_objects_or_no_valid_pixels_witness:
  "run_image_pair_objects
     \<lparr>thr = 15, do_corr_and_slope = True, do_manders = True, do_rwc = False,
      do_overlap = False, do_costes = False\<rparr> pearsonr ''A'' ''B'' ''Nuclei''
     \<lparr>segmented = [0, 0], n_objects = 0,
      first_pixels_l = [Fin 1, Fin 2], first_mask_l = [True, True],
      second_pixels_l = [Fin 2, Fin 1], second_mask_l = [True, True],
      first_pixel_data = [Fin 1, Fin 2], first_mask = [True, True],
      second_pixel_data = [Fin 2, Fin 1], second_mask = [True, True]\<rparr> =
   Inr ([[Str ''A'', Str ''B'', Str ''Nuclei'', Str ''Mean correlation'', Str ''-''],
         [Str ''A'', Str ''B'', Str ''Nuclei'', Str ''Median correlation'', Str ''-''],
         [Str ''A'', Str ''B'', Str ''Nuclei'', Str ''Min correlation'', Str ''-''],
         [Str ''A'', Str ''B'', Str ''Nuclei'', Str ''Max correlation'', Str ''-'']],
        [(''Nuclei'', ''Correlation_Correlation_A_B'', []),
         (''Nuclei'', ''Correlation_Manders_A_B'', []),
         (''Nuclei'', ''Correlation_Manders_B_A'', [])]) \<and>
   run_image_pair_objects
     \<lparr>thr = 15, do_corr_and_slope = True, do_manders = True, do_rwc = False,
      do_overlap = False, do_costes = False\<rparr> pearsonr ''A'' ''B'' ''Nuclei''
     \<lparr>segmented = [1, 2], n_objects = 2,
      first_pixels_l = [Fin 1, Fin 2], first_mask_l = [False, False],
      second_pixels_l = [Fin 2, Fin 1], second_mask_l = [True, True],
      first_pixel_data = [Fin 1, Fin 2], first_mask = [False, False],
      second_pixel_data = [Fin 2, Fin 1], second_mask = [True, True]\<rparr> =
   Inr ([],
        [(''Nuclei'', ''Correlation_Correlation_A_B'', [NaN, NaN]),
         (''Nuclei'', ''Correlation_Manders_A_B'', [NaN, NaN]),
         (''Nuclei'', ''Correlation_Manders_B_A'', [NaN, NaN])])"
  using
    no_objects_or_no_valid_pixels [of
      "\<lparr>segmented = [0, 0], n_objects = 0,
        first_pixels_l = [Fin 1, Fin 2], first_mask_l = [True, True],
        second_pixels_l = [Fin 2, Fin 1], second_mask_l = [True, True],
        first_pixel_data = [Fin 1, Fin 2], first_mask = [True, True],
        second_pixel_data = [Fin 2, Fin 1], second_mask = [True, True]\<rparr>"
      "\<lparr>thr = 15, do_corr_and_slope = True, do_manders = True, do_rwc = False,
        do_overlap = False, do_costes = False\<rparr>" pearsonr "''A''" "''B''" "''Nuclei''"]
    no_objects_or_no_valid_pixels [of
      "\<lparr>segmented = [1, 2], n_objects = 2,
        first_pixels_l = [Fin 1, Fin 2], first_mask_l = [False, False],
        second_pixels_l = [Fin 2, Fin 1], second_mask_l = [True, True],
        first_pixel_data = [Fin 1, Fin 2], first_mask = [False, False],
        second_pixel_data = [Fin 2, Fin 1], second_mask = [True, True]\<rparr>"
      "\<lparr>thr = 15, do_corr_and_slope = True, do_manders = True, do_rwc = False,
        do_overlap = False, do_costes = False\<rparr>" pearsonr "''A''" "''B''" "''Nuclei''"]
  by (simp add: no_object_rows_def object_measurements_all_def object_measurements_def
      valid_mask_def np_any_def F_CORRELATION_FORMAT_def F_MANDERS_FORMAT_def
      numeral_2_eq_2)

lemma single_pixel_thresholds: "costes_thresholds pearsonr [Fin 2] [Fin 1] = Inr (1, NaN)"
proof -
  have line: "costes_line [Fin 2] [Fin 1] = (NaN, NaN)"
    by (simp add: costes_line_def costes_covar_def costes_nonZero_def np_gt_def np_select_def
        np_var1_def np_mean_def np_sub_def Let_def)
  have one: "costes_step < 1"
    by (simp add: costes_step_def)
  have "costes_loop pearsonr NaN NaN [Fin 2] [Fin 1] 1 \<lparr>Thr_c = None, passes = 0\<rparr> =
        Inr \<lparr>Thr_c = Some (1, NaN), passes = 1\<rparr>"
    by (subst costes_loop_ValueError [OF one]) (simp_all add: np_select_def pearsonr_def)
  with line show ?thesis
    by (simp add: costes_thresholds_def bind_err_def)
qed

text \<open>
  Claim C9 as the specification words it, with the valid pixels of the objects as the
  population that is empty, fails: the test of line 767 is on the mask of the image
  pair, which lines 743-748 assign after the pixels of the objects have been taken
  with the mask of lines 723-726. With the labels \<open>[1, 0]\<close>, one object, and the masks
  \<open>[False, True]\<close> and \<open>[True, True]\<close>, no pixel of the object is valid, the second
  pixel is valid in the image pair, and the Costes coefficients of the object are \<open>0\<close>,
  not NaN.
\<close>

theorem empty_object_population_costes_zero:
  "np_select [1, 0 :: int]
     (map2 (\<lambda>l (m1, m2). 0 < l \<and> m1 \<and> m2) [1, 0 :: int]
        (zip [False, True] [True, True])) = [] \<and>
   run_image_pair_objects
     \<lparr>thr = 15, do_corr_and_slope = False, do_manders = False, do_rwc = False,
      do_overlap = False, do_costes = True\<rparr> pearsonr ''A'' ''B'' ''Nuclei''
     \<lparr>segmented = [1, 0], n_objects = 1,
      first_pixels_l = [Fin 1, Fin 2], first_mask_l = [False, True],
      second_pixels_l = [Fin 2, Fin 1], second_mask_l = [True, True],
      first_pixel_data = [Fin 1, Fin 2], first_mask = [False, True],
      second_pixel_data = [Fin 2, Fin 1], second_mask = [True, True]\<rparr> =
   Inr ([[Str ''A'', Str ''B'', Str ''Nuclei'', Str ''Mean Manders coeff (Costes)'', Fmt3 (Fin 0)],
         [Str ''A'', Str ''B'', Str ''Nuclei'', Str ''Median Manders coeff (Costes)'', Fmt3 (Fin 0)],
         [Str ''A'', Str ''B'', Str ''Nuclei'', Str ''Min Manders coeff (Costes)'', Fmt3 (Fin 0)],
         [Str ''A'', Str ''B'', Str ''Nuclei'', Str ''Max Manders coeff (Costes)'', Fmt3 (Fin 0)],
         [Str ''B'', Str ''A'', Str ''Nuclei'', Str ''Mean Manders coeff (Costes)'', Fmt3 (Fin 0)],
         [Str ''B'', Str ''A'', Str ''Nuclei'', Str ''Median Manders coeff (Costes)'', Fmt3 (Fin 0)],
         [Str ''B'', Str ''A'', Str ''Nuclei'', Str ''Min Manders coeff (Costes)'', Fmt3 (Fin 0)],
         [Str ''B'', Str ''A'', Str ''Nuclei'', Str ''Max Manders coeff (Costes)'', Fmt3 (Fin 0)]],
        [(''Nuclei'', ''Correlation_Costes_A_B'', [Fin 0]),
         (''Nuclei'', ''Correlation_Costes_B_A'', [Fin 0])])"
  by (simp add: run_image_pair_objects_def valid_mask_def np_select_def Let_def opt_when_def
      bind_err_def costes_objects_def single_pixel_thresholds np_any_def np_zeros_def
      lrange_of_def summary_rows2_def summary_rows_def np_mean_def np_median_def
      object_measurements_def F_COSTES_FORMAT_def)

end
